theory Spec2Isabelle
  imports Main
begin

section \<open>The Paper embedded-wallet connector for wagmi\<close>

text \<open>
  A shallow embedding of \<^verbatim>\<open>packages/embedded-wallet-service-wagmi/src/lib/connector.ts\<close>:
  the class \<^verbatim>\<open>PaperEmbeddedWalletWagmiConnector\<close> and the function \<^verbatim>\<open>getChain\<close>.

  \<^item> The private fields \<^verbatim>\<open>#sdk\<close>, \<^verbatim>\<open>#paperOptions\<close>, \<^verbatim>\<open>#provider\<close>, \<^verbatim>\<open>#user\<close> and
    \<^verbatim>\<open>#rpcEndpoint\<close> are the record fields \<open>priv_sdk\<close>, \<open>priv_paperOptions\<close>,
    \<open>priv_provider\<close>, \<open>priv_user\<close> and \<open>priv_rpcEndpoint\<close>; an absent or \<^verbatim>\<open>null\<close> field
    is \<open>None\<close>.
  \<^item> \<^verbatim>\<open>#paperOptions\<close> is the caller's options object itself, kept by reference and read
    again by \<^verbatim>\<open>getChainId\<close> on every call. The field \<open>priv_paperOptions\<close> holds what that
    object contains now, and the caller changing the object is an action of its own
    (\<open>Options\<close> below).
  \<^item> An \<^verbatim>\<open>async\<close> method is a function from the connector and the state of the outside
    world to its settled outcome, the connector and the world afterwards. A rejected
    promise (or a thrown exception) is \<open>Inl e\<close>, a resolved one is \<open>Inr v\<close>. The methods are
    awaited one after the other, so no two of them overlap.
  \<^item> The wallet SDK and the wagmi chain registry are imported packages. They are
    parameters of the model: the record \<open>S\<close> holds the SDK's operations over an arbitrary
    world type \<open>'w\<close> and handle type \<open>'h\<close>, each of which may fail, and the record \<open>W\<close> holds
    the five chain descriptors.
\<close>

subsection \<open>Data\<close>

text \<open>
  Everything JavaScript can throw here is an \<^verbatim>\<open>Error\<close> with a message, or wagmi's
  \<^verbatim>\<open>UserRejectedRequestError\<close> wrapping the value that was caught.
\<close>

datatype error = Error string | UserRejectedRequestError error

text \<open>
  Of the SDK's enumeration \<^verbatim>\<open>UserStatus\<close> the connector names one member only; every
  other member is an \<open>OtherStatus\<close>.
\<close>

datatype UserStatus = LOGGED_IN_WALLET_INITIALIZED | OtherStatus string

text \<open>Wallets and providers are objects of the SDK and of ethers: opaque references.\<close>

datatype Wallet = Wallet nat

datatype Provider = Provider nat

text \<open>
  What \<^verbatim>\<open>sdk.getUser()\<close> resolves with. When the status is
  \<open>LOGGED_IN_WALLET_INITIALIZED\<close> it is an \<^verbatim>\<open>InitializedUser\<close>, and only then are the other
  two fields read.
\<close>

record user_status =
  status :: UserStatus
  walletAddress :: string
  wallet :: Wallet

type_synonym InitializedUser = user_status

record AuthLoginReturnType =
  user :: user_status

text \<open>ethers' \<^verbatim>\<open>Networkish\<close> is a URL or network name, a chain number, or a network object.\<close>

datatype Networkish = NetworkName string | NetworkNumber int | NetworkObject nat

record Signer =
  provider :: "Provider option"

record Chain =
  chain_id :: int

record PaperConstructorType =
  clientId :: "string option"
  chain :: string
  rpcEndpoint :: "Networkish option"

record PaperEmbeddedWalletWagmiConnectorProps =
  config_chains :: "Chain list option"
  options :: PaperConstructorType

text \<open>The five descriptors imported from \<^verbatim>\<open>wagmi/chains\<close>.\<close>

record wagmi_chains =
  mainnet :: Chain
  goerli :: Chain
  polygon :: Chain
  polygonMumbai :: Chain
  avalanche :: Chain

text \<open>
  The operations of \<^verbatim>\<open>PaperEmbeddedWalletSdk\<close> that the connector calls:
  \<^verbatim>\<open>new PaperEmbeddedWalletSdk(options)\<close>, \<^verbatim>\<open>sdk.getUser()\<close>,
  \<^verbatim>\<open>sdk.auth.loginWithPaperModal()\<close>, \<^verbatim>\<open>sdk.auth.logout()\<close> and
  \<^verbatim>\<open>user.wallet.getEthersJsSigner(signerOptions)\<close>.
\<close>

record ('w, 'h) sdk =
  sdk_new :: "PaperConstructorType \<Rightarrow> 'w \<Rightarrow> (error + 'h) \<times> 'w"
  sdk_getUser :: "'h \<Rightarrow> 'w \<Rightarrow> (error + user_status) \<times> 'w"
  sdk_loginWithPaperModal :: "'h \<Rightarrow> 'w \<Rightarrow> (error + AuthLoginReturnType) \<times> 'w"
  sdk_logout :: "'h \<Rightarrow> 'w \<Rightarrow> (error + unit) \<times> 'w"
  sdk_getEthersJsSigner :: "Wallet \<Rightarrow> Networkish option \<Rightarrow> 'w \<Rightarrow> (error + Signer) \<times> 'w"

text \<open>
  What the connector emits through the \<^verbatim>\<open>emit\<close> it inherits from wagmi's
  \<^verbatim>\<open>Connector\<close>: \<^verbatim>\<open>emit("disconnect")\<close>, \<^verbatim>\<open>emit("change", { account })\<close> and
  \<^verbatim>\<open>emit("change", { chain: { id, unsupported } })\<close>. The id is \<^verbatim>\<open>Number(chainId)\<close>, an
  integer or, as \<open>None\<close>, \<^verbatim>\<open>NaN\<close>.
\<close>

datatype connector_event =
  EmitDisconnect
| EmitChangeAccount string
| EmitChangeChain "int option" bool

text \<open>The three methods that \<^verbatim>\<open>connect\<close> hands to \<^verbatim>\<open>provider.on\<close>.\<close>

datatype handler = OnAccountsChanged | OnChainChanged | OnDisconnect

text \<open>
  What \<^verbatim>\<open>this\<close> is while a relay runs: the connector when the relay is called as a
  method of the connector; \<^verbatim>\<open>undefined\<close> when the bare function is called (class bodies
  are strict code); the provider when the provider applies the function to itself, as
  the emitters of ethers and of Node do with their listeners.
\<close>

datatype receiver = This_undefined | This_connector | This_provider Provider

text \<open>
  What a provider notifies its listeners of: \<^verbatim>\<open>accountsChanged\<close> with a list of accounts,
  \<^verbatim>\<open>chainChanged\<close> with a chain id (given here as the value of \<^verbatim>\<open>Number(chainId)\<close>), and
  \<^verbatim>\<open>disconnect\<close> with an error that the relay does not read.
\<close>

datatype notification =
  AccountsChanged "string list"
| ChainChanged "int option"
| ProviderDisconnect

text \<open>
  The connector. \<open>emitted\<close> is the sequence of events the connector has emitted so far.
  \<open>listeners\<close> is the sequence of \<^verbatim>\<open>provider.on(name, handler)\<close> registrations made so
  far, each with the provider it was made on, and \<open>provider_emitted\<close> is the sequence of
  events that relays have emitted on a provider: both live in the provider objects,
  which are shared by reference, so they are kept in one store each.
\<close>

record 'h connector =
  ready :: bool
  connector_id :: string
  connector_name :: string
  chains :: "Chain list"
  priv_sdk :: "'h option"
  priv_paperOptions :: PaperConstructorType
  priv_provider :: "Provider option"
  priv_user :: "InitializedUser option"
  priv_rpcEndpoint :: "Networkish option"
  emitted :: "connector_event list"
  provider_emitted :: "(Provider \<times> connector_event) list"
  listeners :: "(Provider \<times> string \<times> handler) list"

record ChainData =
  data_chain_id :: int
  unsupported :: bool

record ConnectorData =
  data_provider :: Provider
  data_chain :: ChainData
  data_account :: string

subsection \<open>JavaScript's truthiness, and \<^verbatim>\<open>startsWith\<close>\<close>

text \<open>A string is falsy when it is empty or absent, a number when it is zero.\<close>

fun truthy_string :: "string option \<Rightarrow> bool" where
  "truthy_string None = False"
| "truthy_string (Some s) = (s \<noteq> [])"

fun truthy_Networkish :: "Networkish option \<Rightarrow> bool" where
  "truthy_Networkish None = False"
| "truthy_Networkish (Some (NetworkName s)) = (s \<noteq> [])"
| "truthy_Networkish (Some (NetworkNumber n)) = (n \<noteq> 0)"
| "truthy_Networkish (Some (NetworkObject _)) = True"

fun startsWith :: "string \<Rightarrow> string \<Rightarrow> bool" where
  "startsWith s [] = True"
| "startsWith [] (p # ps) = False"
| "startsWith (c # cs) (p # ps) = (c = p \<and> startsWith cs ps)"

subsection \<open>The error messages\<close>

definition NO_CLIENT_ID :: error where
  "NO_CLIENT_ID = Error ''No client ID provided. Provide your Paper Embedded Wallet client ID found in the Developer Dashboard.''"

definition NOT_LOGGED_IN :: error where
  \<open>NOT_LOGGED_IN = Error ''User is not logged in. Try calling "connect()" first.''\<close>

definition FAILED_TO_GET_SIGNER :: error where
  \<open>FAILED_TO_GET_SIGNER = Error ''Failed to get Signer. Try calling "connect()" first.''\<close>

definition UNEXPECTED_USER_STATUS :: error where
  "UNEXPECTED_USER_STATUS = Error ''Unexpected user status after logging in. Please try logging in again.''"

definition TYPE_ERROR :: error where
  "TYPE_ERROR = Error ''TypeError''"

definition UNSUPPORTED_CHAIN :: error where
  "UNSUPPORTED_CHAIN = Error ''Unsupported chain. See https://docs.withpaper.com/reference/embedded-wallet-service-faq for supported chains.''"

subsection \<open>\<^verbatim>\<open>getChain\<close>\<close>

definition getChain :: "wagmi_chains \<Rightarrow> string \<Rightarrow> error + Chain" where
  "getChain W c =
     (if c = ''Ethereum'' then Inr (mainnet W)
      else if c = ''Goerli'' then Inr (goerli W)
      else if c = ''Polygon'' then Inr (polygon W)
      else if c = ''Mumbai'' then Inr (polygonMumbai W)
      else if c = ''Avalanche'' then Inr (avalanche W)
      else Inl UNSUPPORTED_CHAIN)"

subsection \<open>The methods\<close>

text \<open>\<^verbatim>\<open>getSdk\<close>: the SDK client is created on first use and kept.\<close>

definition getSdk ::
  "('w, 'h) sdk \<Rightarrow> 'h connector \<Rightarrow> 'w \<Rightarrow> (error + 'h) \<times> 'h connector \<times> 'w" where
  "getSdk S c w =
     (case priv_sdk c of
        Some h \<Rightarrow> (Inr h, c, w)
      | None \<Rightarrow>
          (case sdk_new S (priv_paperOptions c) w of
             (Inl e, w1) \<Rightarrow> (Inl e, c, w1)
           | (Inr h, w1) \<Rightarrow> (Inr h, c\<lparr>priv_sdk := Some h\<rparr>, w1)))"

text \<open>
  \<^verbatim>\<open>getUser\<close>: the cached session if there is one; otherwise the SDK is asked, and its
  answer is stored only when the status is \<open>LOGGED_IN_WALLET_INITIALIZED\<close>. The value
  returned is the field \<^verbatim>\<open>#user\<close> as it is afterwards.
\<close>

definition getUser ::
  "('w, 'h) sdk \<Rightarrow> 'h connector \<Rightarrow> 'w \<Rightarrow> (error + InitializedUser option) \<times> 'h connector \<times> 'w" where
  "getUser S c w =
     (case priv_user c of
        Some u \<Rightarrow> (Inr (Some u), c, w)
      | None \<Rightarrow>
          (case getSdk S c w of
             (Inl e, c1, w1) \<Rightarrow> (Inl e, c1, w1)
           | (Inr h, c1, w1) \<Rightarrow>
               (case sdk_getUser S h w1 of
                  (Inl e, w2) \<Rightarrow> (Inl e, c1, w2)
                | (Inr userStatus, w2) \<Rightarrow>
                    (if status userStatus = LOGGED_IN_WALLET_INITIALIZED
                     then (Inr (Some userStatus), c1\<lparr>priv_user := Some userStatus\<rparr>, w2)
                     else (Inr None, c1, w2)))))"

definition getAccount ::
  "('w, 'h) sdk \<Rightarrow> 'h connector \<Rightarrow> 'w \<Rightarrow> (error + string) \<times> 'h connector \<times> 'w" where
  "getAccount S c w =
     (case getUser S c w of
        (Inl e, c1, w1) \<Rightarrow> (Inl e, c1, w1)
      | (Inr None, c1, w1) \<Rightarrow> (Inl NOT_LOGGED_IN, c1, w1)
      | (Inr (Some u), c1, w1) \<Rightarrow>
          (let account = walletAddress u
           in (Inr (if startsWith account ''0x'' then account else ''0x'' @ account), c1, w1)))"

text \<open>
  \<^verbatim>\<open>getSigner\<close>: the RPC endpoint is passed on only when it is truthy.
\<close>

definition getSigner ::
  "('w, 'h) sdk \<Rightarrow> 'h connector \<Rightarrow> 'w \<Rightarrow> (error + Signer) \<times> 'h connector \<times> 'w" where
  "getSigner S c w =
     (case getUser S c w of
        (Inl e, c1, w1) \<Rightarrow> (Inl e, c1, w1)
      | (Inr None, c1, w1) \<Rightarrow> (Inl NOT_LOGGED_IN, c1, w1)
      | (Inr (Some u), c1, w1) \<Rightarrow>
          (let signerOptions =
                 (if truthy_Networkish (priv_rpcEndpoint c1) then priv_rpcEndpoint c1 else None)
           in case sdk_getEthersJsSigner S (wallet u) signerOptions w1 of
                (Inl e, w2) \<Rightarrow> (Inl e, c1, w2)
              | (Inr signer, w2) \<Rightarrow> (Inr signer, c1, w2)))"

text \<open>
  \<^verbatim>\<open>getProvider\<close>: the cached provider if there is one; otherwise the provider of a
  fresh signer, which is then cached.
\<close>

definition getProvider ::
  "('w, 'h) sdk \<Rightarrow> 'h connector \<Rightarrow> 'w \<Rightarrow> (error + Provider) \<times> 'h connector \<times> 'w" where
  "getProvider S c w =
     (case priv_provider c of
        Some p \<Rightarrow> (Inr p, c, w)
      | None \<Rightarrow>
          (case getSigner S c w of
             (Inl e, c1, w1) \<Rightarrow> (Inl e, c1, w1)
           | (Inr signer, c1, w1) \<Rightarrow>
               (case provider signer of
                  None \<Rightarrow> (Inl FAILED_TO_GET_SIGNER, c1, w1)
                | Some p \<Rightarrow> (Inr p, c1\<lparr>priv_provider := Some p\<rparr>, w1))))"

text \<open>
  The event relays are written \<^verbatim>\<open>this?.emit(...)\<close>: with \<^verbatim>\<open>this\<close> undefined nothing is
  emitted, and otherwise \<^verbatim>\<open>emit\<close> is called on whatever \<^verbatim>\<open>this\<close> is, the connector or the
  provider. \<^verbatim>\<open>accounts[0]\<close> is \<^verbatim>\<open>undefined\<close> for an empty list, and \<^verbatim>\<open>!account\<close> holds for
  \<^verbatim>\<open>undefined\<close> and for the empty string.
\<close>

definition emit :: "receiver \<Rightarrow> connector_event \<Rightarrow> 'h connector \<Rightarrow> 'h connector" where
  "emit this e c =
     (case this of
        This_undefined \<Rightarrow> c
      | This_connector \<Rightarrow> c\<lparr>emitted := emitted c @ [e]\<rparr>
      | This_provider p \<Rightarrow> c\<lparr>provider_emitted := provider_emitted c @ [(p, e)]\<rparr>)"

definition onAccountsChanged :: "receiver \<Rightarrow> string list \<Rightarrow> 'h connector \<Rightarrow> 'h connector" where
  "onAccountsChanged this accounts c =
     (let account = (case accounts of [] \<Rightarrow> None | a # _ \<Rightarrow> Some a)
      in if \<not> truthy_string account then emit this EmitDisconnect c
         else emit this (EmitChangeAccount (the account)) c)"

definition onDisconnect :: "receiver \<Rightarrow> 'h connector \<Rightarrow> 'h connector" where
  "onDisconnect this c = emit this EmitDisconnect c"

text \<open>
  \<^verbatim>\<open>isChainUnsupported\<close> is inherited from wagmi's \<^verbatim>\<open>Connector\<close>: no chain of \<^verbatim>\<open>chains\<close>
  has the id. \<^verbatim>\<open>onChainChanged\<close> calls it as \<^verbatim>\<open>this.isChainUnsupported(id)\<close>, with no
  \<^verbatim>\<open>?.\<close>: that throws a \<^verbatim>\<open>TypeError\<close> when \<^verbatim>\<open>this\<close> is undefined, and when it is a provider,
  which has no such method.
\<close>

definition isChainUnsupported :: "'h connector \<Rightarrow> int option \<Rightarrow> bool" where
  "isChainUnsupported c chainId = (\<not> list_ex (\<lambda>x. Some (chain_id x) = chainId) (chains c))"

definition onChainChanged :: "receiver \<Rightarrow> int option \<Rightarrow> 'h connector \<Rightarrow> error + 'h connector" where
  "onChainChanged this n c =
     (case this of
        This_connector \<Rightarrow> Inr (emit this (EmitChangeChain n (isChainUnsupported c n)) c)
      | This_undefined \<Rightarrow> Inl TYPE_ERROR
      | This_provider p \<Rightarrow> Inl TYPE_ERROR)"

text \<open>
  \<^verbatim>\<open>getChainId\<close> is not \<^verbatim>\<open>async\<close>: it reads the configuration only. \<open>Inl\<close> is an
  exception thrown by \<^verbatim>\<open>getChain\<close>, \<open>Inr n\<close> is \<^verbatim>\<open>Promise.resolve(n)\<close>.
\<close>

definition getChainId :: "wagmi_chains \<Rightarrow> 'h connector \<Rightarrow> error + int" where
  "getChainId W c =
     (case getChain W (chain (priv_paperOptions c)) of
        Inl e \<Rightarrow> Inl e
      | Inr ch \<Rightarrow> Inr (chain_id ch))"

definition isAuthorized ::
  "('w, 'h) sdk \<Rightarrow> 'h connector \<Rightarrow> 'w \<Rightarrow> (error + bool) \<times> 'h connector \<times> 'w" where
  "isAuthorized S c w =
     (case getUser S c w of
        (Inl e, c1, w1) \<Rightarrow> (Inl e, c1, w1)
      | (Inr u, c1, w1) \<Rightarrow> (Inr (u \<noteq> None), c1, w1))"

definition disconnect ::
  "('w, 'h) sdk \<Rightarrow> 'h connector \<Rightarrow> 'w \<Rightarrow> (error + unit) \<times> 'h connector \<times> 'w" where
  "disconnect S c w =
     (case getSdk S c w of
        (Inl e, c1, w1) \<Rightarrow> (Inl e, c1, w1)
      | (Inr h, c1, w1) \<Rightarrow>
          (case sdk_logout S h w1 of
             (Inl e, w2) \<Rightarrow> (Inl e, c1, w2)
           | (Inr _, w2) \<Rightarrow> (Inr (), c1\<lparr>priv_user := None\<rparr>, w2)))"

text \<open>
  The \<^verbatim>\<open>try\<close> block of \<^verbatim>\<open>connect\<close>: whatever is thrown inside it, by \<^verbatim>\<open>getSdk\<close>, by the
  login or by the status check, is caught and thrown again inside a
  \<^verbatim>\<open>UserRejectedRequestError\<close>.
\<close>

definition login ::
  "('w, 'h) sdk \<Rightarrow> 'h connector \<Rightarrow> 'w \<Rightarrow> (error + unit) \<times> 'h connector \<times> 'w" where
  "login S c w =
     (case getSdk S c w of
        (Inl e, c1, w1) \<Rightarrow> (Inl (UserRejectedRequestError e), c1, w1)
      | (Inr h, c1, w1) \<Rightarrow>
          (case sdk_loginWithPaperModal S h w1 of
             (Inl e, w2) \<Rightarrow> (Inl (UserRejectedRequestError e), c1, w2)
           | (Inr resp, w2) \<Rightarrow>
               (if status (user resp) \<noteq> LOGGED_IN_WALLET_INITIALIZED
                then (Inl (UserRejectedRequestError UNEXPECTED_USER_STATUS), c1, w2)
                else (Inr (), c1, w2))))"

text \<open>The rest of \<^verbatim>\<open>connect\<close>, from \<^verbatim>\<open>getProvider\<close> on.\<close>

definition subscribe ::
  "('w, 'h) sdk \<Rightarrow> wagmi_chains \<Rightarrow> 'h connector \<Rightarrow> 'w \<Rightarrow>
     (error + ConnectorData) \<times> 'h connector \<times> 'w" where
  "subscribe S W c w =
     (case getProvider S c w of
        (Inl e, c1, w1) \<Rightarrow> (Inl e, c1, w1)
      | (Inr p, c1, w1) \<Rightarrow>
          (let c2 = c1\<lparr>listeners := listeners c1 @
                      [(p, ''accountsChanged'', OnAccountsChanged),
                       (p, ''chainChanged'', OnChainChanged),
                       (p, ''disconnect'', OnDisconnect)]\<rparr>
           in case getChainId W c2 of
                Inl e \<Rightarrow> (Inl e, c2, w1)
              | Inr n \<Rightarrow>
                  (case getAccount S c2 w1 of
                     (Inl e, c3, w3) \<Rightarrow> (Inl e, c3, w3)
                   | (Inr account, c3, w3) \<Rightarrow>
                       (Inr \<lparr>data_provider = p,
                             data_chain = \<lparr>data_chain_id = n, unsupported = False\<rparr>,
                             data_account = account\<rparr>, c3, w3))))"

definition connect ::
  "('w, 'h) sdk \<Rightarrow> wagmi_chains \<Rightarrow> 'h connector \<Rightarrow> 'w \<Rightarrow>
     (error + ConnectorData) \<times> 'h connector \<times> 'w" where
  "connect S W c w =
     (case isAuthorized S c w of
        (Inl e, c1, w1) \<Rightarrow> (Inl e, c1, w1)
      | (Inr isAuthenticated, c1, w1) \<Rightarrow>
          (if \<not> isAuthenticated
           then (case login S c1 w1 of
                   (Inl e, c2, w2) \<Rightarrow> (Inl e, c2, w2)
                 | (Inr _, c2, w2) \<Rightarrow> subscribe S W c2 w2)
           else subscribe S W c1 w1))"

text \<open>
  The constructor. \<open>is_server\<close> is the constant \<^verbatim>\<open>IS_SERVER\<close>, fixed when the module is
  loaded, and \<open>has_window\<close> is \<^verbatim>\<open>typeof window !== "undefined"\<close> when the constructor runs.
  The base class's constructor stores the configuration and touches nothing else; the
  \<^verbatim>\<open>chains\<close> it sets are overwritten. \<^verbatim>\<open>#paperOptions\<close> becomes the object \<^verbatim>\<open>config.options\<close>
  itself, \<^verbatim>\<open>#rpcEndpoint\<close> the endpoint it holds at that moment. A constructor that throws
  leaves no connector behind.
\<close>

definition constructor ::
  "('w, 'h) sdk \<Rightarrow> wagmi_chains \<Rightarrow> bool \<Rightarrow> bool \<Rightarrow> PaperEmbeddedWalletWagmiConnectorProps \<Rightarrow>
     'w \<Rightarrow> (error + 'h connector) \<times> 'w" where
  "constructor S W is_server has_window config w =
     (if \<not> truthy_string (clientId (options config)) then (Inl NO_CLIENT_ID, w)
      else
        (case getChain W (chain (options config)) of
           Inl e \<Rightarrow> (Inl e, w)
         | Inr ch \<Rightarrow>
             (let c = \<lparr>ready = (\<not> is_server),
                       connector_id = ''paper-embedded-wallet'',
                       connector_name = ''Paper Embedded Wallet'',
                       chains = [ch],
                       priv_sdk = None,
                       priv_paperOptions = options config,
                       priv_provider = None,
                       priv_user = None,
                       priv_rpcEndpoint = rpcEndpoint (options config),
                       emitted = [],
                       provider_emitted = [],
                       listeners = []\<rparr>
              in if has_window
                 then (case getSdk S c w of
                         (Inl e, c1, w1) \<Rightarrow> (Inl e, w1)
                       | (Inr _, c1, w1) \<Rightarrow> (Inr c1, w1))
                 else (Inr c, w))))"

subsection \<open>Notifications\<close>

text \<open>
  \<^verbatim>\<open>connect\<close> hands \<^verbatim>\<open>this.onAccountsChanged\<close>, \<^verbatim>\<open>this.onChainChanged\<close> and
  \<^verbatim>\<open>this.onDisconnect\<close> to \<^verbatim>\<open>provider.on\<close> as they are: the functions, not bound to the
  connector. When the provider \<open>p\<close> notifies, each listener registered on \<open>p\<close> under the
  event's name runs with \<^verbatim>\<open>this\<close> undefined or, if the provider applies its listeners to
  itself (\<open>applied\<close>), with \<^verbatim>\<open>this\<close> the provider; an exception a listener throws stays in
  the provider. An event that a relay emits on the provider is recorded in
  \<open>provider_emitted\<close>; the provider notifying its listeners of that event in turn is a
  notification of its own. \<^verbatim>\<open>connect\<close> registers each relay under its own event only, so a relay
  never meets the notification of another event.
\<close>

fun event_name :: "notification \<Rightarrow> string" where
  "event_name (AccountsChanged accounts) = ''accountsChanged''"
| "event_name (ChainChanged n) = ''chainChanged''"
| "event_name ProviderDisconnect = ''disconnect''"

fun invoke :: "handler \<Rightarrow> receiver \<Rightarrow> notification \<Rightarrow> 'h connector \<Rightarrow> 'h connector" where
  "invoke OnAccountsChanged this (AccountsChanged accounts) c = onAccountsChanged this accounts c"
| "invoke OnChainChanged this (ChainChanged n) c =
     (case onChainChanged this n c of Inl e \<Rightarrow> c | Inr c1 \<Rightarrow> c1)"
| "invoke OnDisconnect this ProviderDisconnect c = onDisconnect this c"
| "invoke h this n c = c"

fun provider_emits ::
  "Provider \<Rightarrow> bool \<Rightarrow> notification \<Rightarrow> (Provider \<times> string \<times> handler) list \<Rightarrow>
     'h connector \<Rightarrow> 'h connector" where
  "provider_emits p applied n [] c = c"
| "provider_emits p applied n ((q, name, h) # ls) c =
     provider_emits p applied n ls
       (if q = p \<and> name = event_name n
        then invoke h (if applied then This_provider p else This_undefined) n c
        else c)"

text \<open>The relay of a notification, for calling it as a method of the connector.\<close>

fun relay_of :: "notification \<Rightarrow> handler" where
  "relay_of (AccountsChanged accounts) = OnAccountsChanged"
| "relay_of (ChainChanged n) = OnChainChanged"
| "relay_of ProviderDisconnect = OnDisconnect"

subsection \<open>Sequences of calls\<close>

text \<open>
  What can happen to a connector once it is constructed: one of its methods is called;
  one of its relays is called as a method of the connector (\<open>Relay\<close>); a provider
  notifies its listeners (\<open>ProviderEmits\<close>); the caller changes the options object it
  passed to the constructor, which the connector has kept (\<open>Options\<close>, with what the
  object contains afterwards); or the outside world changes by itself (a session
  expires, the user logs in elsewhere). \<open>step\<close> keeps the connector and the world and
  drops the outcome.
\<close>

datatype 'w action =
  GetSdk
| GetUser
| GetAccount
| GetSigner
| GetProvider
| GetChainId
| IsAuthorized
| Connect
| Disconnect
| Relay notification
| ProviderEmits Provider bool notification
| Options PaperConstructorType
| World "'w \<Rightarrow> 'w"

fun step ::
  "('w, 'h) sdk \<Rightarrow> wagmi_chains \<Rightarrow> 'w action \<Rightarrow> 'h connector \<times> 'w \<Rightarrow> 'h connector \<times> 'w" where
  "step S W GetSdk (c, w) = snd (getSdk S c w)"
| "step S W GetUser (c, w) = snd (getUser S c w)"
| "step S W GetAccount (c, w) = snd (getAccount S c w)"
| "step S W GetSigner (c, w) = snd (getSigner S c w)"
| "step S W GetProvider (c, w) = snd (getProvider S c w)"
| "step S W GetChainId (c, w) = (c, w)"
| "step S W IsAuthorized (c, w) = snd (isAuthorized S c w)"
| "step S W Connect (c, w) = snd (connect S W c w)"
| "step S W Disconnect (c, w) = snd (disconnect S c w)"
| "step S W (Relay n) (c, w) = (invoke (relay_of n) This_connector n c, w)"
| "step S W (ProviderEmits p applied n) (c, w) = (provider_emits p applied n (listeners c) c, w)"
| "step S W (Options opts) (c, w) = (c\<lparr>priv_paperOptions := opts\<rparr>, w)"
| "step S W (World f) (c, w) = (c, f w)"

fun changes_options :: "'w action \<Rightarrow> bool" where
  "changes_options (Options opts) = True"
| "changes_options a = False"

fun run ::
  "('w, 'h) sdk \<Rightarrow> wagmi_chains \<Rightarrow> 'w action list \<Rightarrow> 'h connector \<times> 'w \<Rightarrow> 'h connector \<times> 'w" where
  "run S W [] s = s"
| "run S W (a # as) s = run S W as (step S W a s)"

subsection \<open>A concrete SDK\<close>

text \<open>
  To run the model on concrete inputs: an SDK whose world records whether a user is
  logged in and how many clients were created. Its login resolves or rejects as
  \<open>outcome\<close> says; a login that resolves with \<open>LOGGED_IN_WALLET_INITIALIZED\<close> logs the
  user in, and logout logs the user out. Every signer has the provider \<open>Provider 7\<close>.
\<close>

record demo_world =
  logged_in :: bool
  clients :: nat

definition demo_user :: "string \<Rightarrow> UserStatus \<Rightarrow> user_status" where
  "demo_user address st = \<lparr>status = st, walletAddress = address, wallet = Wallet 1\<rparr>"

definition demo_sdk :: "string \<Rightarrow> error + UserStatus \<Rightarrow> (demo_world, unit) sdk" where
  "demo_sdk address outcome =
     \<lparr>sdk_new = (\<lambda>opts w. (Inr (), w\<lparr>clients := clients w + 1\<rparr>)),
      sdk_getUser = (\<lambda>h w.
        (Inr (if logged_in w then demo_user address LOGGED_IN_WALLET_INITIALIZED
              else demo_user [] (OtherStatus ''Logged Out'')), w)),
      sdk_loginWithPaperModal = (\<lambda>h w.
        (case outcome of
           Inl e \<Rightarrow> (Inl e, w)
         | Inr st \<Rightarrow> (Inr \<lparr>user = demo_user address st\<rparr>,
                       w\<lparr>logged_in := (st = LOGGED_IN_WALLET_INITIALIZED)\<rparr>))),
      sdk_logout = (\<lambda>h w. (Inr (), w\<lparr>logged_in := False\<rparr>)),
      sdk_getEthersJsSigner = (\<lambda>wl opts w. (Inr \<lparr>provider = Some (Provider 7)\<rparr>, w))\<rparr>"

definition demo_chains :: wagmi_chains where
  "demo_chains = \<lparr>mainnet = \<lparr>chain_id = 1\<rparr>, goerli = \<lparr>chain_id = 5\<rparr>,
     polygon = \<lparr>chain_id = 137\<rparr>, polygonMumbai = \<lparr>chain_id = 80001\<rparr>,
     avalanche = \<lparr>chain_id = 43114\<rparr>\<rparr>"

definition demo_config :: "string \<Rightarrow> string \<Rightarrow> PaperEmbeddedWalletWagmiConnectorProps" where
  "demo_config cid ch =
     \<lparr>config_chains = None,
      options = \<lparr>clientId = Some cid, chain = ch, rpcEndpoint = None\<rparr>\<rparr>"

definition demo_connector :: "unit connector" where
  "demo_connector =
     \<lparr>ready = True,
      connector_id = ''paper-embedded-wallet'',
      connector_name = ''Paper Embedded Wallet'',
      chains = [\<lparr>chain_id = 137\<rparr>],
      priv_sdk = Some (),
      priv_paperOptions = \<lparr>clientId = Some ''client'', chain = ''Polygon'', rpcEndpoint = None\<rparr>,
      priv_provider = None,
      priv_user = None,
      priv_rpcEndpoint = None,
      emitted = [],
      provider_emitted = [],
      listeners = []\<rparr>"

subsection \<open>How the methods may change the connector\<close>

text \<open>
  \<open>grows c c'\<close>: from \<open>c\<close> to \<open>c'\<close> the configuration is the same,
  and each of the three cached fields is the same or was empty before; a session that
  is newly cached has the status \<open>LOGGED_IN_WALLET_INITIALIZED\<close>.
\<close>

definition grows :: "'h connector \<Rightarrow> 'h connector \<Rightarrow> bool" where
  "grows c c' \<longleftrightarrow>
     ready c' = ready c \<and> connector_id c' = connector_id c \<and>
     connector_name c' = connector_name c \<and> chains c' = chains c \<and>
     priv_paperOptions c' = priv_paperOptions c \<and>
     priv_rpcEndpoint c' = priv_rpcEndpoint c \<and>
     (priv_sdk c' = priv_sdk c \<or> priv_sdk c = None) \<and>
     (priv_provider c' = priv_provider c \<or> priv_provider c = None) \<and>
     (priv_user c' = priv_user c \<or>
      priv_user c = None \<and> (\<exists>u. priv_user c' = Some u \<and> status u = LOGGED_IN_WALLET_INITIALIZED))"

section \<open>Properties\<close>

subsection \<open>Frame lemmas\<close>

text \<open>Every method but \<^verbatim>\<open>disconnect\<close> takes the connector to one that \<open>grows\<close> from it.\<close>

lemma grows_refl: "grows c c"
  by (simp add: grows_def)

lemma grows_trans: "grows a b \<Longrightarrow> grows b c \<Longrightarrow> grows a c"
  unfolding grows_def by (elim conjE) (auto)

lemma grows_listeners: "grows c c' \<Longrightarrow> grows c (c'\<lparr>listeners := l\<rparr>)"
  by (simp add: grows_def)

lemma getSdk_cases:
  "getSdk S c w = (r, c', w') \<Longrightarrow>
     (priv_sdk c = Some h \<longrightarrow> r = Inr h \<and> c' = c \<and> w' = w) \<and>
     (c' = c \<or> (priv_sdk c = None \<and> (\<exists>h'. r = Inr h' \<and> c' = c\<lparr>priv_sdk := Some h'\<rparr>))) \<and>
     (\<forall>h'. r = Inr h' \<longrightarrow> priv_sdk c' = Some h')"
  by (auto simp: getSdk_def split: option.splits prod.splits sum.splits)

lemma getSdk_grows: "getSdk S c w = (r, c', w') \<Longrightarrow> grows c c' \<and> listeners c' = listeners c"
  by (auto simp: getSdk_def grows_def split: option.splits prod.splits sum.splits)

lemma getUser_grows: "getUser S c w = (r, c', w') \<Longrightarrow> grows c c' \<and> listeners c' = listeners c"
  by (auto simp: getUser_def split: option.splits prod.splits sum.splits if_splits
        dest!: getSdk_grows) (auto simp: grows_def)

lemma getSdk_user: "getSdk S c w = (r, c', w') \<Longrightarrow> priv_user c' = priv_user c"
  by (auto simp: getSdk_def split: option.splits prod.splits sum.splits)

lemma getUser_result:
  "getUser S c w = (Inr r, c', w') \<Longrightarrow> priv_user c' = r"
  by (auto simp: getUser_def split: option.splits prod.splits sum.splits if_splits
       dest!: getSdk_user)

lemma getAccount_grows: "getAccount S c w = (r, c', w') \<Longrightarrow> grows c c' \<and> listeners c' = listeners c"
  by (auto simp: getAccount_def Let_def split: option.splits prod.splits sum.splits
        dest!: getUser_grows)

lemma getSigner_grows: "getSigner S c w = (r, c', w') \<Longrightarrow> grows c c' \<and> listeners c' = listeners c"
  by (auto simp: getSigner_def Let_def split: option.splits prod.splits sum.splits
        dest!: getUser_grows)

lemma getProvider_grows: "getProvider S c w = (r, c', w') \<Longrightarrow> grows c c' \<and> listeners c' = listeners c"
  by (auto simp: getProvider_def split: option.splits prod.splits sum.splits
        dest!: getSigner_grows simp: grows_refl) (auto simp: grows_def)

lemma isAuthorized_grows: "isAuthorized S c w = (r, c', w') \<Longrightarrow> grows c c' \<and> listeners c' = listeners c"
  by (auto simp: isAuthorized_def split: option.splits prod.splits sum.splits
        dest!: getUser_grows)

lemma login_grows: "login S c w = (r, c', w') \<Longrightarrow> grows c c' \<and> listeners c' = listeners c"
  by (auto simp: login_def split: option.splits prod.splits sum.splits if_splits
        dest!: getSdk_grows)

lemma subscribe_grows: "subscribe S W c w = (r, c', w') \<Longrightarrow> grows c c'"
  by (auto simp: subscribe_def Let_def split: option.splits prod.splits sum.splits
        dest!: getProvider_grows getAccount_grows intro: grows_trans grows_listeners)

lemma connect_grows: "connect S W c w = (r, c', w') \<Longrightarrow> grows c c'"
  by (auto simp: connect_def split: option.splits prod.splits sum.splits if_splits
        dest!: isAuthorized_grows login_grows subscribe_grows intro: grows_trans)


text \<open>A connector that was just constructed has nothing cached.\<close>

lemma constructor_fresh:
  assumes "constructor S W is_server has_window config w0 = (Inr c, w1)"
  shows "priv_user c = None \<and> priv_provider c = None \<and> priv_paperOptions c = options config \<and>
         emitted c = [] \<and> listeners c = [] \<and>
         (\<exists>ch. getChain W (chain (options config)) = Inr ch \<and> chains c = [ch])"
  using assms
  by (auto simp: constructor_def Let_def getSdk_def
        split: if_splits sum.splits prod.splits option.splits)

text \<open>When \<^verbatim>\<open>getUser\<close> yields a session, and when it yields none.\<close>

lemma getUser_cached: "priv_user c = Some u \<Longrightarrow> getUser S c w = (Inr (Some u), c, w)"
  by (simp add: getUser_def)

lemma getUser_fetch:
  assumes "priv_user c = None" "getSdk S c w = (Inr h, c1, w1)" "sdk_getUser S h w1 = (Inr us, w2)"
  shows "getUser S c w =
           (if status us = LOGGED_IN_WALLET_INITIALIZED
            then (Inr (Some us), c1\<lparr>priv_user := Some us\<rparr>, w2) else (Inr None, c1, w2))"
  using assms by (simp add: getUser_def)

lemma getUser_Some_iff:
  "(\<exists>u. fst (getUser S c w) = Inr (Some u)) \<longleftrightarrow>
     (\<exists>u. priv_user c = Some u) \<or>
     (\<exists>h c1 w1 us w2. getSdk S c w = (Inr h, c1, w1) \<and> sdk_getUser S h w1 = (Inr us, w2) \<and>
        status us = LOGGED_IN_WALLET_INITIALIZED)"
  by (cases "priv_user c")
     (auto simp: getUser_def split: prod.splits sum.splits if_splits)

lemma getUser_None_iff:
  "fst (getUser S c w) = Inr None \<longleftrightarrow>
     priv_user c = None \<and>
     (\<exists>h c1 w1 us w2. getSdk S c w = (Inr h, c1, w1) \<and> sdk_getUser S h w1 = (Inr us, w2) \<and>
        status us \<noteq> LOGGED_IN_WALLET_INITIALIZED)"
  by (cases "priv_user c")
     (auto simp: getUser_def split: prod.splits sum.splits if_splits)

text \<open>What \<^verbatim>\<open>disconnect\<close> may change.\<close>

lemma disconnect_cases:
  assumes "disconnect S c w = (r, c1, w1)"
  shows "c1 = c \<or> c1 = c\<lparr>priv_user := None\<rparr> \<or>
         (priv_sdk c = None \<and>
          (\<exists>h. c1 = c\<lparr>priv_sdk := Some h\<rparr> \<or> c1 = c\<lparr>priv_sdk := Some h, priv_user := None\<rparr>))"
  using assms
  by (auto simp: disconnect_def getSdk_def split: prod.splits sum.splits option.splits)

text \<open>
  The relays touch the two stores of emitted events and nothing else, and the
  connector's own store only when \<^verbatim>\<open>this\<close> is the connector.
\<close>

lemma emit_grows: "grows c (emit this e c) \<and> listeners (emit this e c) = listeners c"
  by (cases this) (simp_all add: emit_def grows_def)

lemma emit_emitted: "this \<noteq> This_connector \<Longrightarrow> emitted (emit this e c) = emitted c"
  by (cases this) (simp_all add: emit_def)

lemma emit_on_connector: "emit This_connector e c = c\<lparr>emitted := emitted c @ [e]\<rparr>"
  by (simp add: emit_def)

lemma invoke_grows: "grows c (invoke h this n c) \<and> listeners (invoke h this n c) = listeners c"
  by (cases h; cases n; cases this)
     (simp_all add: onAccountsChanged_def onDisconnect_def onChainChanged_def Let_def
        emit_grows grows_refl)

lemma invoke_emitted: "this \<noteq> This_connector \<Longrightarrow> emitted (invoke h this n c) = emitted c"
  by (cases h; cases n; cases this)
     (simp_all add: onAccountsChanged_def onDisconnect_def onChainChanged_def Let_def emit_emitted)

lemma provider_emits_grows: "grows c (provider_emits p applied n ls c)"
proof (induction ls arbitrary: c)
  case Nil
  then show ?case by (simp add: grows_refl)
next
  case (Cons l ls)
  obtain q name h where l: "l = (q, name, h)" by (cases l)
  show ?case
    unfolding l provider_emits.simps
    by (rule grows_trans [OF _ Cons.IH]) (simp add: invoke_grows grows_refl)
qed

lemma provider_emits_emitted: "emitted (provider_emits p applied n ls c) = emitted c"
proof (induction ls arbitrary: c)
  case Nil
  then show ?case by simp
next
  case (Cons l ls)
  obtain q name h where l: "l = (q, name, h)" by (cases l)
  show ?case
    unfolding l provider_emits.simps Cons.IH
    by (simp add: invoke_emitted)
qed

text \<open>What every step keeps, and so every sequence of steps.\<close>

lemma snd_triple: "snd x = (b, c) \<longleftrightarrow> (\<exists>a. x = (a, b, c))"
  by (cases x) auto

lemma step_grows:
  assumes "step S W a (c, w) = (c', w')" "a \<noteq> Disconnect" "\<not> changes_options a"
  shows "grows c c'"
  using assms
  by (cases a)
     (auto simp: snd_triple grows_refl invoke_grows provider_emits_grows
        dest!: getSdk_grows getUser_grows getAccount_grows getSigner_grows getProvider_grows
               isAuthorized_grows connect_grows)

lemma step_cases:
  assumes "step S W a (c, w) = (c', w')"
  shows "(\<exists>r. a = Disconnect \<and> disconnect S c w = (r, c', w')) \<or>
         (\<exists>opts. a = Options opts \<and> c' = c\<lparr>priv_paperOptions := opts\<rparr>) \<or>
         (a \<noteq> Disconnect \<and> \<not> changes_options a \<and> grows c c')"
proof (cases "a = Disconnect")
  case True
  with assms show ?thesis by (auto simp: snd_triple)
next
  case False
  show ?thesis
  proof (cases "changes_options a")
    case True
    then obtain opts where "a = Options opts" by (cases a) auto
    with assms show ?thesis by auto
  next
    case no: False
    from step_grows [OF assms False no] False no show ?thesis by simp
  qed
qed

lemma step_paperOptions:
  assumes "step S W a (c, w) = (c', w')" "\<not> changes_options a"
  shows "priv_paperOptions c' = priv_paperOptions c"
  using step_cases [OF assms(1)] assms(2)
  by (auto simp: grows_def dest!: disconnect_cases)

lemma step_chains:
  assumes "step S W a (c, w) = (c', w')"
  shows "chains c' = chains c"
  using step_cases [OF assms]
  by (auto simp: grows_def dest!: disconnect_cases)

lemma step_provider:
  assumes "step S W a (c, w) = (c', w')" "priv_provider c = Some p"
  shows "priv_provider c' = Some p"
  using step_cases [OF assms(1)] assms(2)
  by (auto simp: grows_def dest!: disconnect_cases)

lemma step_user_initialized:
  assumes "step S W a (c, w) = (c', w')"
    and "\<forall>u. priv_user c = Some u \<longrightarrow> status u = LOGGED_IN_WALLET_INITIALIZED"
  shows "\<forall>u. priv_user c' = Some u \<longrightarrow> status u = LOGGED_IN_WALLET_INITIALIZED"
  using step_cases [OF assms(1)] assms(2)
  by (auto simp: grows_def dest!: disconnect_cases)

lemma run_paperOptions:
  "run S W as (c, w) = (c', w') \<Longrightarrow> list_all (\<lambda>a. \<not> changes_options a) as \<Longrightarrow>
   priv_paperOptions c' = priv_paperOptions c"
proof (induction as arbitrary: c w)
  case Nil
  then show ?case by simp
next
  case (Cons a as)
  obtain c1 w1 where s: "step S W a (c, w) = (c1, w1)" by (cases "step S W a (c, w)")
  with Cons.prems have "run S W as (c1, w1) = (c', w')" by simp
  from Cons.IH [OF this] Cons.prems(2) step_paperOptions [OF s] show ?case by simp
qed

lemma run_chains:
  "run S W as (c, w) = (c', w') \<Longrightarrow> chains c' = chains c"
proof (induction as arbitrary: c w)
  case Nil
  then show ?case by simp
next
  case (Cons a as)
  obtain c1 w1 where s: "step S W a (c, w) = (c1, w1)" by (cases "step S W a (c, w)")
  with Cons.prems have "run S W as (c1, w1) = (c', w')" by simp
  from Cons.IH [OF this] step_chains [OF s] show ?case by simp
qed

lemma run_provider:
  "run S W as (c, w) = (c', w') \<Longrightarrow> priv_provider c = Some p \<Longrightarrow> priv_provider c' = Some p"
proof (induction as arbitrary: c w)
  case Nil
  then show ?case by simp
next
  case (Cons a as)
  obtain c1 w1 where s: "step S W a (c, w) = (c1, w1)" by (cases "step S W a (c, w)")
  with Cons.prems have "run S W as (c1, w1) = (c', w')" by simp
  from Cons.IH [OF this step_provider [OF s Cons.prems(2)]] show ?case .
qed

lemma run_user_initialized:
  "run S W as (c, w) = (c', w') \<Longrightarrow>
   \<forall>u. priv_user c = Some u \<longrightarrow> status u = LOGGED_IN_WALLET_INITIALIZED \<Longrightarrow>
   \<forall>u. priv_user c' = Some u \<longrightarrow> status u = LOGGED_IN_WALLET_INITIALIZED"
proof (induction as arbitrary: c w)
  case Nil
  then show ?case by simp
next
  case (Cons a as)
  obtain c1 w1 where s: "step S W a (c, w) = (c1, w1)" by (cases "step S W a (c, w)")
  with Cons.prems have "run S W as (c1, w1) = (c', w')" by simp
  from Cons.IH [OF this step_user_initialized [OF s Cons.prems(2)]] show ?case .
qed

text \<open>\<^verbatim>\<open>isAuthorized\<close> in terms of \<^verbatim>\<open>getUser\<close>, and \<^verbatim>\<open>getSdk\<close> once the client exists.\<close>

lemma isAuthorized_True_iff:
  "fst (isAuthorized S c w) = Inr True \<longleftrightarrow> (\<exists>u. fst (getUser S c w) = Inr (Some u))"
  by (auto simp: isAuthorized_def split: prod.splits sum.splits)

lemma isAuthorized_False_iff:
  "fst (isAuthorized S c w) = Inr False \<longleftrightarrow> fst (getUser S c w) = Inr None"
  by (auto simp: isAuthorized_def split: prod.splits sum.splits)

lemma getSdk_created: "priv_sdk c = Some h \<Longrightarrow> getSdk S c w = (Inr h, c, w)"
  by (simp add: getSdk_def)

subsection \<open>The concrete SDK at work\<close>

text \<open>
  Construction in a browser, a first \<^verbatim>\<open>connect\<close> with a login that succeeds, and
  \<^verbatim>\<open>disconnect\<close>, on the concrete SDK.
\<close>

lemmas demo_defs = demo_sdk_def demo_user_def demo_chains_def demo_config_def demo_connector_def

lemmas method_defs = getSdk_def getUser_def getAccount_def getSigner_def getProvider_def
  isAuthorized_def login_def subscribe_def connect_def disconnect_def getChainId_def getChain_def
  constructor_def

lemma demo_constructor:
  "constructor (demo_sdk a out) demo_chains False True (demo_config ''client'' ''Polygon'')
     \<lparr>logged_in = b, clients = 0\<rparr> = (Inr demo_connector, \<lparr>logged_in = b, clients = 1\<rparr>)"
  by (simp add: method_defs demo_defs)

lemma demo_connect:
  "connect (demo_sdk ''abc123'' (Inr LOGGED_IN_WALLET_INITIALIZED)) demo_chains demo_connector
     \<lparr>logged_in = False, clients = 1\<rparr> =
   (Inr \<lparr>data_provider = Provider 7,
         data_chain = \<lparr>data_chain_id = 137, unsupported = False\<rparr>,
         data_account = ''0xabc123''\<rparr>,
    demo_connector
      \<lparr>priv_provider := Some (Provider 7),
       priv_user := Some (demo_user ''abc123'' LOGGED_IN_WALLET_INITIALIZED),
       listeners := [(Provider 7, ''accountsChanged'', OnAccountsChanged),
                     (Provider 7, ''chainChanged'', OnChainChanged),
                     (Provider 7, ''disconnect'', OnDisconnect)]\<rparr>,
    \<lparr>logged_in = True, clients = 1\<rparr>)"
  by (simp add: method_defs demo_defs)

lemma demo_disconnect:
  "disconnect (demo_sdk a out) c \<lparr>logged_in = b, clients = n\<rparr> =
     (case priv_sdk c of
        Some h \<Rightarrow> (Inr (), c\<lparr>priv_user := None\<rparr>, \<lparr>logged_in = False, clients = n\<rparr>)
      | None \<Rightarrow> (Inr (), c\<lparr>priv_sdk := Some (), priv_user := None\<rparr>,
                 \<lparr>logged_in = False, clients = n + 1\<rparr>))"
  by (simp add: disconnect_def getSdk_def demo_sdk_def split: option.splits)

lemma demo_connect_disconnect:
  "run (demo_sdk ''abc123'' (Inr LOGGED_IN_WALLET_INITIALIZED)) demo_chains [Connect, Disconnect]
     (demo_connector, \<lparr>logged_in = False, clients = 1\<rparr>) =
   (demo_connector
      \<lparr>priv_provider := Some (Provider 7),
       listeners := [(Provider 7, ''accountsChanged'', OnAccountsChanged),
                     (Provider 7, ''chainChanged'', OnChainChanged),
                     (Provider 7, ''disconnect'', OnDisconnect)]\<rparr>,
    \<lparr>logged_in = False, clients = 1\<rparr>)"
  unfolding run.simps step.simps demo_connect snd_conv demo_disconnect
  by (simp add: demo_connector_def)

subsection \<open>Account retrieval\<close>

text \<open>
  Claim C2. Whenever \<^verbatim>\<open>getUser\<close> yields a session \<open>u\<close>, \<^verbatim>\<open>getAccount\<close> resolves with
  an address that starts with \<^verbatim>\<open>0x\<close>: the session's wallet address itself when that
  starts with \<^verbatim>\<open>0x\<close>, and the wallet address with \<^verbatim>\<open>0x\<close> put in front otherwise.
\<close>

theorem getAccount_hex_prefixed:
  assumes "getUser S c w = (Inr (Some u), c1, w1)"
  shows "\<exists>a. getAccount S c w = (Inr a, c1, w1) \<and> startsWith a ''0x'' \<and>
           (startsWith (walletAddress u) ''0x'' \<longrightarrow> a = walletAddress u) \<and>
           (\<not> startsWith (walletAddress u) ''0x'' \<longrightarrow> a = ''0x'' @ walletAddress u)"
  using assms by (simp add: getAccount_def Let_def)

text \<open>The two examples of the specification: \<^verbatim>\<open>abc123\<close> and \<^verbatim>\<open>0xdef456\<close>.\<close>

theorem getAccount_hex_prefixed_witness:
  "fst (getAccount (demo_sdk ''abc123'' (Inr LOGGED_IN_WALLET_INITIALIZED)) demo_connector
          \<lparr>logged_in = True, clients = 1\<rparr>) = Inr ''0xabc123'' \<and>
   fst (getAccount (demo_sdk ''0xdef456'' (Inr LOGGED_IN_WALLET_INITIALIZED)) demo_connector
          \<lparr>logged_in = True, clients = 1\<rparr>) = Inr ''0xdef456''"
proof -
  let ?w = "\<lparr>logged_in = True, clients = 1\<rparr>"
  have h: "getUser (demo_sdk a (Inr LOGGED_IN_WALLET_INITIALIZED)) demo_connector ?w =
             (Inr (Some (demo_user a LOGGED_IN_WALLET_INITIALIZED)),
              demo_connector\<lparr>priv_user := Some (demo_user a LOGGED_IN_WALLET_INITIALIZED)\<rparr>, ?w)"
    for a
    by (simp add: getUser_def getSdk_def demo_sdk_def demo_connector_def demo_user_def)
  from getAccount_hex_prefixed [OF h [of "''abc123''"]]
       getAccount_hex_prefixed [OF h [of "''0xdef456''"]]
  show ?thesis
    by (auto simp: demo_user_def)
qed

subsection \<open>Construction\<close>

text \<open>
  Claim C3. When the client id is absent or empty the constructor throws the error
  ``No client ID provided''; when the client id is there and the chain name is none of
  Ethereum, Goerli, Polygon, Mumbai and Avalanche it throws the error ``Unsupported
  chain''; so an unsupported chain name always makes it throw one of the two. In each
  case the world is as it was before: the SDK was not touched, whatever the SDK is.
\<close>

theorem constructor_configuration_error:
  "(\<not> truthy_string (clientId (options config)) \<longrightarrow>
      constructor S W is_server has_window config w = (Inl NO_CLIENT_ID, w)) \<and>
   (truthy_string (clientId (options config)) \<and>
    chain (options config) \<notin> {''Ethereum'', ''Goerli'', ''Polygon'', ''Mumbai'', ''Avalanche''} \<longrightarrow>
      constructor S W is_server has_window config w = (Inl UNSUPPORTED_CHAIN, w)) \<and>
   (chain (options config) \<notin> {''Ethereum'', ''Goerli'', ''Polygon'', ''Mumbai'', ''Avalanche''} \<longrightarrow>
      (\<exists>e. constructor S W is_server has_window config w = (Inl e, w) \<and>
           (e = NO_CLIENT_ID \<or> e = UNSUPPORTED_CHAIN)))"
  by (simp add: constructor_def getChain_def)

theorem constructor_configuration_error_witness:
  "constructor (demo_sdk ''abc123'' (Inr LOGGED_IN_WALLET_INITIALIZED)) demo_chains False True
      (demo_config ''client'' ''Solana'') \<lparr>logged_in = False, clients = 0\<rparr>
     = (Inl UNSUPPORTED_CHAIN, \<lparr>logged_in = False, clients = 0\<rparr>) \<and>
   constructor (demo_sdk ''abc123'' (Inr LOGGED_IN_WALLET_INITIALIZED)) demo_chains False True
      (demo_config [] ''Polygon'') \<lparr>logged_in = False, clients = 0\<rparr>
     = (Inl NO_CLIENT_ID, \<lparr>logged_in = False, clients = 0\<rparr>) \<and>
   constructor (demo_sdk ''abc123'' (Inr LOGGED_IN_WALLET_INITIALIZED)) demo_chains False True
      \<lparr>config_chains = None, options = \<lparr>clientId = None, chain = ''Polygon'', rpcEndpoint = None\<rparr>\<rparr>
      \<lparr>logged_in = False, clients = 0\<rparr>
     = (Inl NO_CLIENT_ID, \<lparr>logged_in = False, clients = 0\<rparr>)"
  using
    constructor_configuration_error [where config = "demo_config ''client'' ''Solana''"
      and S = "demo_sdk ''abc123'' (Inr LOGGED_IN_WALLET_INITIALIZED)" and W = demo_chains
      and is_server = False and has_window = True and w = "\<lparr>logged_in = False, clients = 0\<rparr>"]
    constructor_configuration_error [where config = "demo_config [] ''Polygon''"
      and S = "demo_sdk ''abc123'' (Inr LOGGED_IN_WALLET_INITIALIZED)" and W = demo_chains
      and is_server = False and has_window = True and w = "\<lparr>logged_in = False, clients = 0\<rparr>"]
    constructor_configuration_error [where config =
        "\<lparr>config_chains = None, options = \<lparr>clientId = None, chain = ''Polygon'', rpcEndpoint = None\<rparr>\<rparr>"
      and S = "demo_sdk ''abc123'' (Inr LOGGED_IN_WALLET_INITIALIZED)" and W = demo_chains
      and is_server = False and has_window = True and w = "\<lparr>logged_in = False, clients = 0\<rparr>"]
  by (simp add: demo_config_def)

subsection \<open>Event relays\<close>

text \<open>
  Called as a method of the connector, the account-change relay emits \<^verbatim>\<open>disconnect\<close> on
  the connector for the empty list and \<^verbatim>\<open>change\<close> with the first account for a list
  whose first account is a non-empty string; a first account that is the empty string
  is falsy and gives \<^verbatim>\<open>disconnect\<close> as well.
\<close>

lemma onAccountsChanged_on_connector:
  "(accounts = [] \<longrightarrow>
      onAccountsChanged This_connector accounts c = c\<lparr>emitted := emitted c @ [EmitDisconnect]\<rparr>) \<and>
   (accounts \<noteq> [] \<and> hd accounts \<noteq> [] \<longrightarrow>
      onAccountsChanged This_connector accounts c =
        c\<lparr>emitted := emitted c @ [EmitChangeAccount (hd accounts)]\<rparr>) \<and>
   (accounts \<noteq> [] \<and> hd accounts = [] \<longrightarrow>
      onAccountsChanged This_connector accounts c = c\<lparr>emitted := emitted c @ [EmitDisconnect]\<rparr>)"
  by (cases accounts) (auto simp: onAccountsChanged_def emit_def)

text \<open>
  Claim C7 is about the account-change notifications, and those reach the relay
  through \<^verbatim>\<open>provider.on("accountsChanged", this.onAccountsChanged)\<close>, where the relay is
  handed over without its connector. So on a notification \<^verbatim>\<open>this\<close> is not the connector,
  and the connector emits nothing: no step \<open>ProviderEmits\<close> changes what the connector
  has emitted. On the concrete SDK, after a \<^verbatim>\<open>connect\<close> that resolves with the provider
  \<open>Provider 7\<close>, that provider notifies of an empty account list and of the list
  \<^verbatim>\<open>["0xaa", "0xbb"]\<close>: in both cases the connector has emitted nothing afterwards. When
  the provider applies the relay to itself the event is emitted on the provider
  instead, otherwise on nothing.
\<close>

theorem onAccountsChanged_notification:
  "emitted (fst (step S W (ProviderEmits p applied n) (c, w))) = emitted c \<and>
   emitted (fst (run (demo_sdk ''abc123'' (Inr LOGGED_IN_WALLET_INITIALIZED)) demo_chains
        [Connect, ProviderEmits (Provider 7) True (AccountsChanged [])]
        (demo_connector, \<lparr>logged_in = False, clients = 1\<rparr>))) = [] \<and>
   emitted (fst (run (demo_sdk ''abc123'' (Inr LOGGED_IN_WALLET_INITIALIZED)) demo_chains
        [Connect, ProviderEmits (Provider 7) True (AccountsChanged [''0xaa'', ''0xbb''])]
        (demo_connector, \<lparr>logged_in = False, clients = 1\<rparr>))) = [] \<and>
   emitted (fst (run (demo_sdk ''abc123'' (Inr LOGGED_IN_WALLET_INITIALIZED)) demo_chains
        [Connect, ProviderEmits (Provider 7) False (AccountsChanged [])]
        (demo_connector, \<lparr>logged_in = False, clients = 1\<rparr>))) = [] \<and>
   emitted (fst (run (demo_sdk ''abc123'' (Inr LOGGED_IN_WALLET_INITIALIZED)) demo_chains
        [Connect, ProviderEmits (Provider 7) False (AccountsChanged [''0xaa'', ''0xbb''])]
        (demo_connector, \<lparr>logged_in = False, clients = 1\<rparr>))) = [] \<and>
   provider_emitted (fst (run (demo_sdk ''abc123'' (Inr LOGGED_IN_WALLET_INITIALIZED)) demo_chains
        [Connect, ProviderEmits (Provider 7) True (AccountsChanged [])]
        (demo_connector, \<lparr>logged_in = False, clients = 1\<rparr>))) =
     [(Provider 7, EmitDisconnect)] \<and>
   provider_emitted (fst (run (demo_sdk ''abc123'' (Inr LOGGED_IN_WALLET_INITIALIZED)) demo_chains
        [Connect, ProviderEmits (Provider 7) True (AccountsChanged [''0xaa'', ''0xbb''])]
        (demo_connector, \<lparr>logged_in = False, clients = 1\<rparr>))) =
     [(Provider 7, EmitChangeAccount ''0xaa'')]"
proof -
  have r: "run S' W' [Connect, a] s = step S' W' a (snd (connect S' W' (fst s) (snd s)))"
    for S' :: "('x, 'y) sdk" and W' a s
    by (cases s) simp
  show ?thesis
    unfolding r fst_conv snd_conv demo_connect
    by (simp add: provider_emits_emitted)
       (simp add: onAccountsChanged_def emit_def demo_connector_def)
qed

subsection \<open>Chain id\<close>

text \<open>
  Claim C9, as stated, has \<^verbatim>\<open>getChainId\<close> always resolve with the id of the chain that
  the configuration named at construction. The connector keeps the caller's options
  object, not a copy, and \<^verbatim>\<open>getChainId\<close> reads its chain name on every call. After the
  caller has set the name of a connector built for Polygon to Ethereum, \<^verbatim>\<open>getChainId\<close>
  resolves with the id of mainnet; after the caller has set it to Solana,
  \<^verbatim>\<open>getChainId\<close> throws.
\<close>

theorem getChainId_static_counterexample:
  "constructor (demo_sdk ''abc123'' (Inr LOGGED_IN_WALLET_INITIALIZED)) demo_chains False True
     (demo_config ''client'' ''Polygon'') \<lparr>logged_in = False, clients = 0\<rparr> =
     (Inr demo_connector, \<lparr>logged_in = False, clients = 1\<rparr>) \<and>
   getChainId demo_chains demo_connector = Inr 137 \<and>
   getChainId demo_chains (fst (run (demo_sdk ''abc123'' (Inr LOGGED_IN_WALLET_INITIALIZED)) demo_chains
        [Options \<lparr>clientId = Some ''client'', chain = ''Ethereum'', rpcEndpoint = None\<rparr>]
        (demo_connector, \<lparr>logged_in = False, clients = 1\<rparr>))) = Inr 1 \<and>
   getChainId demo_chains (fst (run (demo_sdk ''abc123'' (Inr LOGGED_IN_WALLET_INITIALIZED)) demo_chains
        [Options \<lparr>clientId = Some ''client'', chain = ''Solana'', rpcEndpoint = None\<rparr>]
        (demo_connector, \<lparr>logged_in = False, clients = 1\<rparr>))) = Inl UNSUPPORTED_CHAIN"
  unfolding demo_constructor
  by (simp add: getChainId_def getChain_def demo_chains_def demo_connector_def)

text \<open>
  Claim C9, amended. \<^verbatim>\<open>getChainId\<close> resolves with the id of the chain that the table
  gives for the chain name the options object holds at the call: mainnet for Ethereum,
  goerli for Goerli, polygon for Polygon, polygonMumbai for Mumbai and avalanche for
  Avalanche; for any other name it throws ``Unsupported chain''. For a connector built
  by the constructor from \<open>config\<close>, after any sequence of method calls, relayed events,
  notifications and changes of the outside world in which the caller does not change
  the options object, the object holds what \<open>config\<close> gave, its chain name is one of
  the five, and \<^verbatim>\<open>getChainId\<close> resolves with the id of the one chain in \<^verbatim>\<open>chains\<close>, the
  chain resolved at construction. \<^verbatim>\<open>getChainId\<close> reads neither the world nor the cached
  session.
\<close>

theorem getChainId_configured:
  "(chain (priv_paperOptions c) = ''Ethereum'' \<longrightarrow> getChainId W c = Inr (chain_id (mainnet W))) \<and>
   (chain (priv_paperOptions c) = ''Goerli'' \<longrightarrow> getChainId W c = Inr (chain_id (goerli W))) \<and>
   (chain (priv_paperOptions c) = ''Polygon'' \<longrightarrow> getChainId W c = Inr (chain_id (polygon W))) \<and>
   (chain (priv_paperOptions c) = ''Mumbai'' \<longrightarrow> getChainId W c = Inr (chain_id (polygonMumbai W))) \<and>
   (chain (priv_paperOptions c) = ''Avalanche'' \<longrightarrow> getChainId W c = Inr (chain_id (avalanche W))) \<and>
   (chain (priv_paperOptions c) \<notin> {''Ethereum'', ''Goerli'', ''Polygon'', ''Mumbai'', ''Avalanche''} \<longrightarrow>
      getChainId W c = Inl UNSUPPORTED_CHAIN) \<and>
   (constructor S W is_server has_window config w0 = (Inr c0, w1) \<and>
    run S W as (c0, w1) = (c', w') \<and> list_all (\<lambda>a. \<not> changes_options a) as \<longrightarrow>
      priv_paperOptions c' = options config \<and>
      chain (options config) \<in> {''Ethereum'', ''Goerli'', ''Polygon'', ''Mumbai'', ''Avalanche''} \<and>
      (\<exists>ch. chains c' = [ch] \<and> getChainId W c' = Inr (chain_id ch)))"
proof (intro conjI impI)
  assume a: "constructor S W is_server has_window config w0 = (Inr c0, w1) \<and>
    run S W as (c0, w1) = (c', w') \<and> list_all (\<lambda>a. \<not> changes_options a) as"
  then obtain ch where o: "priv_paperOptions c0 = options config"
    and g: "getChain W (chain (options config)) = Inr ch" and ch: "chains c0 = [ch]"
    by (auto dest!: constructor_fresh)
  from a o show p: "priv_paperOptions c' = options config"
    by (auto dest: run_paperOptions)
  from g show "chain (options config) \<in> {''Ethereum'', ''Goerli'', ''Polygon'', ''Mumbai'', ''Avalanche''}"
    by (auto simp: getChain_def split: if_splits)
  from a ch have "chains c' = [ch]" by (auto dest: run_chains)
  with p g show "\<exists>ch. chains c' = [ch] \<and> getChainId W c' = Inr (chain_id ch)"
    by (simp add: getChainId_def)
qed (simp_all add: getChainId_def getChain_def)

theorem getChainId_configured_witness:
  "getChainId demo_chains (demo_connector\<lparr>priv_paperOptions := options (demo_config ''client'' ''Ethereum'')\<rparr>) = Inr 1 \<and>
   getChainId demo_chains (demo_connector\<lparr>priv_paperOptions := options (demo_config ''client'' ''Goerli'')\<rparr>) = Inr 5 \<and>
   getChainId demo_chains (demo_connector\<lparr>priv_paperOptions := options (demo_config ''client'' ''Polygon'')\<rparr>) = Inr 137 \<and>
   getChainId demo_chains (demo_connector\<lparr>priv_paperOptions := options (demo_config ''client'' ''Mumbai'')\<rparr>) = Inr 80001 \<and>
   getChainId demo_chains (demo_connector\<lparr>priv_paperOptions := options (demo_config ''client'' ''Avalanche'')\<rparr>) = Inr 43114 \<and>
   getChainId demo_chains (demo_connector\<lparr>priv_paperOptions := options (demo_config ''client'' ''Solana'')\<rparr>) =
     Inl UNSUPPORTED_CHAIN \<and>
   getChainId demo_chains
     (fst (run (demo_sdk ''abc123'' (Inr LOGGED_IN_WALLET_INITIALIZED)) demo_chains
            [Connect, World (\<lambda>w. w\<lparr>logged_in := False\<rparr>), ProviderEmits (Provider 7) True (ChainChanged (Some 1)),
             Disconnect]
            (demo_connector, \<lparr>logged_in = False, clients = 1\<rparr>))) = Inr 137"
proof -
  let ?S = "demo_sdk ''abc123'' (Inr LOGGED_IN_WALLET_INITIALIZED)"
  let ?as = "[Connect, World (\<lambda>w. w\<lparr>logged_in := False\<rparr>),
              ProviderEmits (Provider 7) True (ChainChanged (Some 1)), Disconnect]"
  let ?s = "run ?S demo_chains ?as (demo_connector, \<lparr>logged_in = False, clients = 1\<rparr>)"
  note t = getChainId_configured [where W = demo_chains]
  note k = demo_constructor [of "''abc123''" "Inr LOGGED_IN_WALLET_INITIALIZED" False]
  have r: "?s = (fst ?s, snd ?s)" by simp
  have l: "list_all (\<lambda>a. \<not> changes_options a) ?as" by simp
  have d: "chains demo_connector = [\<lparr>chain_id = 137\<rparr>]" by (simp add: demo_connector_def)
  from t [where S = ?S and is_server = False and has_window = True
            and config = "demo_config ''client'' ''Polygon''"
            and ?w0.0 = "\<lparr>logged_in = False, clients = 0\<rparr>" and ?c0.0 = demo_connector
            and ?w1.0 = "\<lparr>logged_in = False, clients = 1\<rparr>" and as = ?as
            and c' = "fst ?s" and w' = "snd ?s",
            THEN conjunct2, THEN conjunct2, THEN conjunct2, THEN conjunct2, THEN conjunct2,
            THEN conjunct2] k r l
  obtain ch where "chains (fst ?s) = [ch]" "getChainId demo_chains (fst ?s) = Inr (chain_id ch)"
    by blast
  moreover from run_chains [OF r] d have "chains (fst ?s) = [\<lparr>chain_id = 137\<rparr>]" by simp
  ultimately have g: "getChainId demo_chains (fst ?s) = Inr 137" by simp
  from t [where c = "demo_connector\<lparr>priv_paperOptions := options (demo_config ''client'' ''Ethereum'')\<rparr>", THEN conjunct1]
  have e1: "getChainId demo_chains (demo_connector\<lparr>priv_paperOptions := options (demo_config ''client'' ''Ethereum'')\<rparr>) = Inr 1"
    by (simp add: demo_config_def demo_chains_def)
  from t [where c = "demo_connector\<lparr>priv_paperOptions := options (demo_config ''client'' ''Goerli'')\<rparr>", THEN conjunct2, THEN conjunct1]
  have e2: "getChainId demo_chains (demo_connector\<lparr>priv_paperOptions := options (demo_config ''client'' ''Goerli'')\<rparr>) = Inr 5"
    by (simp add: demo_config_def demo_chains_def)
  from t [where c = "demo_connector\<lparr>priv_paperOptions := options (demo_config ''client'' ''Polygon'')\<rparr>", THEN conjunct2, THEN conjunct2, THEN conjunct1]
  have e3: "getChainId demo_chains (demo_connector\<lparr>priv_paperOptions := options (demo_config ''client'' ''Polygon'')\<rparr>) = Inr 137"
    by (simp add: demo_config_def demo_chains_def)
  from t [where c = "demo_connector\<lparr>priv_paperOptions := options (demo_config ''client'' ''Mumbai'')\<rparr>", THEN conjunct2, THEN conjunct2, THEN conjunct2, THEN conjunct1]
  have e4: "getChainId demo_chains (demo_connector\<lparr>priv_paperOptions := options (demo_config ''client'' ''Mumbai'')\<rparr>) = Inr 80001"
    by (simp add: demo_config_def demo_chains_def)
  from t [where c = "demo_connector\<lparr>priv_paperOptions := options (demo_config ''client'' ''Avalanche'')\<rparr>", THEN conjunct2, THEN conjunct2, THEN conjunct2, THEN conjunct2, THEN conjunct1]
  have e5: "getChainId demo_chains (demo_connector\<lparr>priv_paperOptions := options (demo_config ''client'' ''Avalanche'')\<rparr>) = Inr 43114"
    by (simp add: demo_config_def demo_chains_def)
  from t [where c = "demo_connector\<lparr>priv_paperOptions := options (demo_config ''client'' ''Solana'')\<rparr>", THEN conjunct2, THEN conjunct2, THEN conjunct2, THEN conjunct2, THEN conjunct2, THEN conjunct1]
  have e6: "getChainId demo_chains (demo_connector\<lparr>priv_paperOptions := options (demo_config ''client'' ''Solana'')\<rparr>) = Inl UNSUPPORTED_CHAIN"
    by (simp add: demo_config_def demo_chains_def)
  from e1 e2 e3 e4 e5 e6 g show ?thesis by simp
qed

subsection \<open>Session retrieval\<close>

text \<open>
  Claim C8. \<^verbatim>\<open>getUser\<close> returns a cached session without asking the SDK. With nothing
  cached it asks the SDK: an answer with the status \<open>LOGGED_IN_WALLET_INITIALIZED\<close> is
  cached and returned; for any other answer it returns nothing and caches nothing.
  No step other than \<^verbatim>\<open>disconnect\<close> changes the cached session, except from empty to a
  session with that status; \<^verbatim>\<open>disconnect\<close> leaves it or empties it. So from construction
  on a cached session always has that status.
\<close>

theorem getUser_memoized:
  "(priv_user c = Some u \<longrightarrow> getUser S c w = (Inr (Some u), c, w)) \<and>
   (priv_user c = None \<and> getSdk S c w = (Inr h, c1, w1) \<and> sdk_getUser S h w1 = (Inr us, w2) \<and>
    status us = LOGGED_IN_WALLET_INITIALIZED \<longrightarrow>
      getUser S c w = (Inr (Some us), c1\<lparr>priv_user := Some us\<rparr>, w2)) \<and>
   (priv_user c = None \<and> getSdk S c w = (Inr h, c1, w1) \<and> sdk_getUser S h w1 = (Inr us, w2) \<and>
    status us \<noteq> LOGGED_IN_WALLET_INITIALIZED \<longrightarrow>
      getUser S c w = (Inr None, c1, w2) \<and> priv_user c1 = None) \<and>
   (a \<noteq> Disconnect \<and> step S W a (c, w) = (c', w') \<longrightarrow>
      priv_user c' = priv_user c \<or>
      priv_user c = None \<and> (\<exists>u'. priv_user c' = Some u' \<and> status u' = LOGGED_IN_WALLET_INITIALIZED)) \<and>
   (step S W Disconnect (c, w) = (c', w') \<longrightarrow> priv_user c' = priv_user c \<or> priv_user c' = None) \<and>
   (constructor S W is_server has_window config w0 = (Inr c0, w0') \<and> run S W as (c0, w0') = (c', w') \<and>
    priv_user c' = Some u' \<longrightarrow> status u' = LOGGED_IN_WALLET_INITIALIZED)"
proof (intro conjI impI)
  assume "priv_user c = Some u"
  then show "getUser S c w = (Inr (Some u), c, w)" by (rule getUser_cached)
next
  assume "priv_user c = None \<and> getSdk S c w = (Inr h, c1, w1) \<and>
    sdk_getUser S h w1 = (Inr us, w2) \<and> status us = LOGGED_IN_WALLET_INITIALIZED"
  then show "getUser S c w = (Inr (Some us), c1\<lparr>priv_user := Some us\<rparr>, w2)"
    by (simp add: getUser_fetch)
next
  assume a: "priv_user c = None \<and> getSdk S c w = (Inr h, c1, w1) \<and>
    sdk_getUser S h w1 = (Inr us, w2) \<and> status us \<noteq> LOGGED_IN_WALLET_INITIALIZED"
  then show "getUser S c w = (Inr None, c1, w2)"
    by (simp add: getUser_fetch)
  from a getSdk_user [of S c w "Inr h" c1 w1] show "priv_user c1 = None" by simp
next
  assume "a \<noteq> Disconnect \<and> step S W a (c, w) = (c', w')"
  then have "(\<exists>opts. c' = c\<lparr>priv_paperOptions := opts\<rparr>) \<or> grows c c'"
    by (auto dest: step_cases)
  then show "priv_user c' = priv_user c \<or>
      priv_user c = None \<and> (\<exists>u'. priv_user c' = Some u' \<and> status u' = LOGGED_IN_WALLET_INITIALIZED)"
    by (auto simp: grows_def)
next
  assume "step S W Disconnect (c, w) = (c', w')"
  then obtain r where "disconnect S c w = (r, c', w')" by (auto simp: snd_triple)
  from disconnect_cases [OF this]
  show "priv_user c' = priv_user c \<or> priv_user c' = None" by auto
next
  assume a: "constructor S W is_server has_window config w0 = (Inr c0, w0') \<and> run S W as (c0, w0') = (c', w') \<and>
    priv_user c' = Some u'"
  then have "priv_user c0 = None" by (auto dest: constructor_fresh)
  with a run_user_initialized [of S W as c0 w0' c' w']
  show "status u' = LOGGED_IN_WALLET_INITIALIZED" by simp
qed

theorem getUser_memoized_witness:
  "getUser (demo_sdk ''abc123'' (Inr LOGGED_IN_WALLET_INITIALIZED))
     (demo_connector\<lparr>priv_user := Some (demo_user ''abc123'' LOGGED_IN_WALLET_INITIALIZED)\<rparr>)
     \<lparr>logged_in = False, clients = 1\<rparr> =
     (Inr (Some (demo_user ''abc123'' LOGGED_IN_WALLET_INITIALIZED)),
      demo_connector\<lparr>priv_user := Some (demo_user ''abc123'' LOGGED_IN_WALLET_INITIALIZED)\<rparr>,
      \<lparr>logged_in = False, clients = 1\<rparr>) \<and>
   getUser (demo_sdk ''abc123'' (Inr LOGGED_IN_WALLET_INITIALIZED)) demo_connector
     \<lparr>logged_in = True, clients = 1\<rparr> =
     (Inr (Some (demo_user ''abc123'' LOGGED_IN_WALLET_INITIALIZED)),
      demo_connector\<lparr>priv_user := Some (demo_user ''abc123'' LOGGED_IN_WALLET_INITIALIZED)\<rparr>,
      \<lparr>logged_in = True, clients = 1\<rparr>) \<and>
   getUser (demo_sdk ''abc123'' (Inr LOGGED_IN_WALLET_INITIALIZED)) demo_connector
     \<lparr>logged_in = False, clients = 1\<rparr> =
     (Inr None, demo_connector, \<lparr>logged_in = False, clients = 1\<rparr>) \<and>
   priv_user (fst (step (demo_sdk ''abc123'' (Inr LOGGED_IN_WALLET_INITIALIZED)) demo_chains Connect
     (demo_connector, \<lparr>logged_in = False, clients = 1\<rparr>))) =
     Some (demo_user ''abc123'' LOGGED_IN_WALLET_INITIALIZED) \<and>
   priv_user (fst (step (demo_sdk ''abc123'' (Inr LOGGED_IN_WALLET_INITIALIZED)) demo_chains Disconnect
     (demo_connector\<lparr>priv_user := Some (demo_user ''abc123'' LOGGED_IN_WALLET_INITIALIZED)\<rparr>,
      \<lparr>logged_in = True, clients = 1\<rparr>))) = None \<and>
   status (demo_user ''abc123'' LOGGED_IN_WALLET_INITIALIZED) = LOGGED_IN_WALLET_INITIALIZED"
proof -
  let ?S = "demo_sdk ''abc123'' (Inr LOGGED_IN_WALLET_INITIALIZED)"
  let ?u = "demo_user ''abc123'' LOGGED_IN_WALLET_INITIALIZED"
  let ?out = "\<lparr>logged_in = False, clients = 1\<rparr>"
  let ?in = "\<lparr>logged_in = True, clients = 1\<rparr>"
  let ?c2 = "demo_connector
      \<lparr>priv_provider := Some (Provider 7), priv_user := Some ?u,
       listeners := [(Provider 7, ''accountsChanged'', OnAccountsChanged),
                     (Provider 7, ''chainChanged'', OnChainChanged),
                     (Provider 7, ''disconnect'', OnDisconnect)]\<rparr>"
  have s1: "getSdk ?S demo_connector w = (Inr (), demo_connector, w)" for w
    by (simp add: getSdk_def demo_connector_def)
  have s2: "sdk_getUser ?S () ?in = (Inr ?u, ?in)"
    by (simp add: demo_sdk_def)
  have s3: "sdk_getUser ?S () ?out = (Inr (demo_user [] (OtherStatus ''Logged Out'')), ?out)"
    by (simp add: demo_sdk_def)
  have s4: "step ?S demo_chains Connect (demo_connector, ?out) = (?c2, ?in)"
    by (simp only: step.simps demo_connect snd_conv)
  have s5: "step ?S demo_chains Disconnect (demo_connector\<lparr>priv_user := Some ?u\<rparr>, ?in) =
              (demo_connector, ?out)"
    by (simp add: disconnect_def getSdk_def demo_defs)
  have s6: "run ?S demo_chains [Connect] (demo_connector, ?out) = (?c2, ?in)"
    by (simp only: run.simps step.simps demo_connect snd_conv)
  note t = getUser_memoized [where S = ?S and W = demo_chains]
  from t [where c = "demo_connector\<lparr>priv_user := Some ?u\<rparr>" and u = ?u and w = ?out]
  have a: "getUser ?S (demo_connector\<lparr>priv_user := Some ?u\<rparr>) ?out =
             (Inr (Some ?u), demo_connector\<lparr>priv_user := Some ?u\<rparr>, ?out)"
    by simp
  from t [where c = demo_connector and w = ?in and h = "()" and ?c1.0 = demo_connector
            and ?w1.0 = ?in and us = ?u and ?w2.0 = ?in] s1 s2
  have b: "getUser ?S demo_connector ?in = (Inr (Some ?u), demo_connector\<lparr>priv_user := Some ?u\<rparr>, ?in)"
    by (simp add: demo_connector_def demo_user_def)
  from t [where c = demo_connector and w = ?out and h = "()" and ?c1.0 = demo_connector
            and ?w1.0 = ?out and us = "demo_user [] (OtherStatus ''Logged Out'')" and ?w2.0 = ?out] s1 s3
  have c: "getUser ?S demo_connector ?out = (Inr None, demo_connector, ?out)"
    by (simp add: demo_connector_def demo_user_def)
  from t [where a = Connect and c = demo_connector and w = ?out and c' = ?c2 and w' = ?in] s4
  have d: "priv_user (fst (step ?S demo_chains Connect (demo_connector, ?out))) = Some ?u"
    by (simp add: demo_connector_def)
  from t [where c = "demo_connector\<lparr>priv_user := Some ?u\<rparr>" and w = ?in
            and c' = demo_connector and w' = ?out] s5
  have e: "priv_user (fst (step ?S demo_chains Disconnect
             (demo_connector\<lparr>priv_user := Some ?u\<rparr>, ?in))) = None"
    by (simp add: demo_connector_def)
  from t [where is_server = False and has_window = True and config = "demo_config ''client'' ''Polygon''"
            and ?w0.0 = "\<lparr>logged_in = False, clients = 0\<rparr>" and ?c0.0 = demo_connector
            and w0' = ?out and as = "[Connect]" and c' = ?c2 and w' = ?in and u' = ?u]
       demo_constructor [of "''abc123''" "Inr LOGGED_IN_WALLET_INITIALIZED" False] s6
  have f: "status ?u = LOGGED_IN_WALLET_INITIALIZED"
    by (simp add: demo_connector_def)
  from a b c d e f show ?thesis by simp
qed

subsection \<open>What \<^verbatim>\<open>disconnect\<close> leaves alone\<close>

text \<open>
  Claim C10, as stated, says that \<^verbatim>\<open>disconnect\<close> mutates the cached session and
  nothing else. It calls \<^verbatim>\<open>getSdk\<close>, though, and on a connector whose SDK client does
  not exist yet (one constructed where there is no \<^verbatim>\<open>window\<close>) that creates the client
  and stores it in \<^verbatim>\<open>#sdk\<close>.
\<close>

theorem disconnect_frame_counterexample:
  "constructor (demo_sdk ''abc123'' (Inr LOGGED_IN_WALLET_INITIALIZED)) demo_chains True False
     (demo_config ''client'' ''Polygon'') \<lparr>logged_in = False, clients = 0\<rparr> =
     (Inr (demo_connector\<lparr>ready := False, priv_sdk := None\<rparr>), \<lparr>logged_in = False, clients = 0\<rparr>) \<and>
   priv_sdk (demo_connector\<lparr>ready := False, priv_sdk := None\<rparr>) = None \<and>
   priv_sdk (fst (snd (disconnect (demo_sdk ''abc123'' (Inr LOGGED_IN_WALLET_INITIALIZED))
     (demo_connector\<lparr>ready := False, priv_sdk := None\<rparr>) \<lparr>logged_in = False, clients = 0\<rparr>))) = Some ()"
  by (simp add: demo_disconnect) (simp add: constructor_def getChain_def demo_defs)

text \<open>
  Claim C10, amended. \<^verbatim>\<open>disconnect\<close> changes at most the cached session, which it
  empties, and the SDK client, which it creates when there was none. The cached
  provider and the listeners registered on it stay as they are. So once \<^verbatim>\<open>getProvider\<close>
  has resolved with a provider, after any sequence of steps, \<^verbatim>\<open>disconnect\<close> among them,
  \<^verbatim>\<open>getProvider\<close> resolves with that provider and leaves connector and world as they
  are: it asks for no session.
\<close>

theorem disconnect_frame:
  "(disconnect S c w = (r, c1, w1) \<longrightarrow>
      (c1 = c \<or> c1 = c\<lparr>priv_user := None\<rparr> \<or>
       priv_sdk c = None \<and>
         (\<exists>h. c1 = c\<lparr>priv_sdk := Some h\<rparr> \<or> c1 = c\<lparr>priv_sdk := Some h, priv_user := None\<rparr>)) \<and>
      priv_provider c1 = priv_provider c \<and> listeners c1 = listeners c) \<and>
   (getProvider S c w = (Inr p, c2, w2) \<and> run S W as (c2, w2) = (c', w') \<longrightarrow>
      getProvider S c' w' = (Inr p, c', w'))"
proof (intro conjI impI)
  assume d: "disconnect S c w = (r, c1, w1)"
  from disconnect_cases [OF d]
  show "c1 = c \<or> c1 = c\<lparr>priv_user := None\<rparr> \<or>
       priv_sdk c = None \<and>
         (\<exists>h. c1 = c\<lparr>priv_sdk := Some h\<rparr> \<or> c1 = c\<lparr>priv_sdk := Some h, priv_user := None\<rparr>)" .
  from disconnect_cases [OF d] show "priv_provider c1 = priv_provider c" by auto
  from disconnect_cases [OF d] show "listeners c1 = listeners c" by auto
next
  assume a: "getProvider S c w = (Inr p, c2, w2) \<and> run S W as (c2, w2) = (c', w')"
  then have "priv_provider c2 = Some p"
    by (auto simp: getProvider_def split: option.splits prod.splits sum.splits)
  with a have "priv_provider c' = Some p" by (auto dest: run_provider)
  then show "getProvider S c' w' = (Inr p, c', w')" by (simp add: getProvider_def)
qed

theorem disconnect_frame_witness:
  "fst (snd (disconnect (demo_sdk ''abc123'' (Inr LOGGED_IN_WALLET_INITIALIZED))
     (demo_connector\<lparr>priv_provider := Some (Provider 7),
                     priv_user := Some (demo_user ''abc123'' LOGGED_IN_WALLET_INITIALIZED)\<rparr>)
     \<lparr>logged_in = True, clients = 1\<rparr>)) = demo_connector\<lparr>priv_provider := Some (Provider 7)\<rparr> \<and>
   getProvider (demo_sdk ''abc123'' (Inr LOGGED_IN_WALLET_INITIALIZED))
     (demo_connector\<lparr>priv_user := Some (demo_user ''abc123'' LOGGED_IN_WALLET_INITIALIZED)\<rparr>)
     \<lparr>logged_in = True, clients = 1\<rparr> =
     (Inr (Provider 7),
      demo_connector\<lparr>priv_provider := Some (Provider 7),
                     priv_user := Some (demo_user ''abc123'' LOGGED_IN_WALLET_INITIALIZED)\<rparr>,
      \<lparr>logged_in = True, clients = 1\<rparr>) \<and>
   getProvider (demo_sdk ''abc123'' (Inr LOGGED_IN_WALLET_INITIALIZED))
     (demo_connector\<lparr>priv_provider := Some (Provider 7)\<rparr>) \<lparr>logged_in = False, clients = 1\<rparr> =
     (Inr (Provider 7), demo_connector\<lparr>priv_provider := Some (Provider 7)\<rparr>,
      \<lparr>logged_in = False, clients = 1\<rparr>)"
proof -
  let ?S = "demo_sdk ''abc123'' (Inr LOGGED_IN_WALLET_INITIALIZED)"
  let ?u = "demo_user ''abc123'' LOGGED_IN_WALLET_INITIALIZED"
  let ?out = "\<lparr>logged_in = False, clients = 1\<rparr>"
  let ?in = "\<lparr>logged_in = True, clients = 1\<rparr>"
  let ?c = "demo_connector\<lparr>priv_user := Some ?u\<rparr>"
  let ?c2 = "demo_connector\<lparr>priv_provider := Some (Provider 7), priv_user := Some ?u\<rparr>"
  let ?c3 = "demo_connector\<lparr>priv_provider := Some (Provider 7)\<rparr>"
  have d: "disconnect ?S ?c2 ?in = (Inr (), ?c3, ?out)"
    unfolding demo_disconnect by (simp add: demo_connector_def)
  have g: "getProvider ?S ?c ?in = (Inr (Provider 7), ?c2, ?in)"
    by (simp add: getProvider_def getSigner_def getUser_def demo_defs)
  have r: "run ?S demo_chains [Disconnect] (?c2, ?in) = (?c3, ?out)"
    unfolding run.simps step.simps d by simp
  from disconnect_frame [where S = ?S and W = demo_chains and c = ?c2 and w = ?in and r = "Inr ()"
         and ?c1.0 = ?c3 and ?w1.0 = ?out] d
  have a: "fst (snd (disconnect ?S ?c2 ?in)) = ?c3" by simp
  from disconnect_frame [where S = ?S and W = demo_chains and c = ?c and w = ?in and p = "Provider 7"
         and ?c2.0 = ?c2 and ?w2.0 = ?in and as = "[Disconnect]" and c' = ?c3 and w' = ?out] g r
  have b: "getProvider ?S ?c3 ?out = (Inr (Provider 7), ?c3, ?out)" by simp
  from a b g show ?thesis by simp
qed

subsection \<open>Access without a session\<close>

text \<open>
  Claim C1, as stated, has \<^verbatim>\<open>getProvider\<close> reject whenever there is no session. After a
  \<^verbatim>\<open>connect\<close> and a \<^verbatim>\<open>disconnect\<close> there is no session, \<^verbatim>\<open>getUser\<close> yields nothing, and
  \<^verbatim>\<open>getProvider\<close> resolves with the provider that \<^verbatim>\<open>connect\<close> cached.
\<close>

theorem unauthenticated_access_counterexample:
  "fst (getUser (demo_sdk ''abc123'' (Inr LOGGED_IN_WALLET_INITIALIZED))
     (fst (run (demo_sdk ''abc123'' (Inr LOGGED_IN_WALLET_INITIALIZED)) demo_chains
             [Connect, Disconnect] (demo_connector, \<lparr>logged_in = False, clients = 1\<rparr>)))
     (snd (run (demo_sdk ''abc123'' (Inr LOGGED_IN_WALLET_INITIALIZED)) demo_chains
             [Connect, Disconnect] (demo_connector, \<lparr>logged_in = False, clients = 1\<rparr>)))) = Inr None \<and>
   fst (getProvider (demo_sdk ''abc123'' (Inr LOGGED_IN_WALLET_INITIALIZED))
     (fst (run (demo_sdk ''abc123'' (Inr LOGGED_IN_WALLET_INITIALIZED)) demo_chains
             [Connect, Disconnect] (demo_connector, \<lparr>logged_in = False, clients = 1\<rparr>)))
     (snd (run (demo_sdk ''abc123'' (Inr LOGGED_IN_WALLET_INITIALIZED)) demo_chains
             [Connect, Disconnect] (demo_connector, \<lparr>logged_in = False, clients = 1\<rparr>)))) =
     Inr (Provider 7)"
  unfolding demo_connect_disconnect
  by (simp add: getProvider_def getUser_def getSdk_def demo_defs)

text \<open>
  Claim C1, amended. When no session can be had, nothing being cached and the SDK
  answering with a status other than \<open>LOGGED_IN_WALLET_INITIALIZED\<close>, \<^verbatim>\<open>getAccount\<close> and
  \<^verbatim>\<open>getSigner\<close> reject with ``User is not logged in'', and so does \<^verbatim>\<open>getProvider\<close> when
  no provider is cached; a cached provider is returned whether there is a session or
  not. A connector that was just constructed has neither a session nor a provider
  cached.
\<close>

theorem unauthenticated_access:
  "(priv_user c = None \<and> getSdk S c w = (Inr h, c1, w1) \<and> sdk_getUser S h w1 = (Inr us, w2) \<and>
    status us \<noteq> LOGGED_IN_WALLET_INITIALIZED \<longrightarrow>
      getAccount S c w = (Inl NOT_LOGGED_IN, c1, w2) \<and>
      getSigner S c w = (Inl NOT_LOGGED_IN, c1, w2) \<and>
      (priv_provider c = None \<longrightarrow> getProvider S c w = (Inl NOT_LOGGED_IN, c1, w2))) \<and>
   (priv_provider c = Some p \<longrightarrow> getProvider S c w = (Inr p, c, w)) \<and>
   (constructor S W is_server has_window config w0 = (Inr c, w0') \<longrightarrow>
      priv_user c = None \<and> priv_provider c = None)"
proof (intro conjI impI)
  assume a: "priv_user c = None \<and> getSdk S c w = (Inr h, c1, w1) \<and>
    sdk_getUser S h w1 = (Inr us, w2) \<and> status us \<noteq> LOGGED_IN_WALLET_INITIALIZED"
  then have u: "getUser S c w = (Inr None, c1, w2)"
    by (simp add: getUser_fetch)
  then show "getAccount S c w = (Inl NOT_LOGGED_IN, c1, w2)"
    by (simp add: getAccount_def)
  from u show s: "getSigner S c w = (Inl NOT_LOGGED_IN, c1, w2)"
    by (simp add: getSigner_def)
  assume "priv_provider c = None"
  with s show "getProvider S c w = (Inl NOT_LOGGED_IN, c1, w2)"
    by (simp add: getProvider_def)
next
  assume "priv_provider c = Some p"
  then show "getProvider S c w = (Inr p, c, w)" by (simp add: getProvider_def)
next
  assume k: "constructor S W is_server has_window config w0 = (Inr c, w0')"
  from constructor_fresh [OF k] show "priv_user c = None" by simp
  from constructor_fresh [OF k] show "priv_provider c = None" by simp
qed

theorem unauthenticated_access_witness:
  "getAccount (demo_sdk ''abc123'' (Inr LOGGED_IN_WALLET_INITIALIZED)) demo_connector
     \<lparr>logged_in = False, clients = 1\<rparr> =
     (Inl NOT_LOGGED_IN, demo_connector, \<lparr>logged_in = False, clients = 1\<rparr>) \<and>
   getSigner (demo_sdk ''abc123'' (Inr LOGGED_IN_WALLET_INITIALIZED)) demo_connector
     \<lparr>logged_in = False, clients = 1\<rparr> =
     (Inl NOT_LOGGED_IN, demo_connector, \<lparr>logged_in = False, clients = 1\<rparr>) \<and>
   getProvider (demo_sdk ''abc123'' (Inr LOGGED_IN_WALLET_INITIALIZED)) demo_connector
     \<lparr>logged_in = False, clients = 1\<rparr> =
     (Inl NOT_LOGGED_IN, demo_connector, \<lparr>logged_in = False, clients = 1\<rparr>) \<and>
   getProvider (demo_sdk ''abc123'' (Inr LOGGED_IN_WALLET_INITIALIZED))
     (demo_connector\<lparr>priv_provider := Some (Provider 7)\<rparr>) \<lparr>logged_in = False, clients = 1\<rparr> =
     (Inr (Provider 7), demo_connector\<lparr>priv_provider := Some (Provider 7)\<rparr>,
      \<lparr>logged_in = False, clients = 1\<rparr>)"
proof -
  let ?S = "demo_sdk ''abc123'' (Inr LOGGED_IN_WALLET_INITIALIZED)"
  let ?out = "\<lparr>logged_in = False, clients = 1\<rparr>"
  have s1: "getSdk ?S demo_connector ?out = (Inr (), demo_connector, ?out)"
    by (simp add: getSdk_def demo_connector_def)
  have s2: "sdk_getUser ?S () ?out = (Inr (demo_user [] (OtherStatus ''Logged Out'')), ?out)"
    by (simp add: demo_sdk_def)
  have s3: "status (demo_user [] (OtherStatus ''Logged Out'')) \<noteq> LOGGED_IN_WALLET_INITIALIZED"
    by (simp add: demo_user_def)
  have s4: "priv_user demo_connector = None \<and> priv_provider demo_connector = None"
    by (simp add: demo_connector_def)
  from unauthenticated_access [where S = ?S and c = demo_connector and w = ?out and h = "()"
         and ?c1.0 = demo_connector and ?w1.0 = ?out
         and us = "demo_user [] (OtherStatus ''Logged Out'')" and ?w2.0 = ?out] s1 s2 s3 s4
  have a: "getAccount ?S demo_connector ?out = (Inl NOT_LOGGED_IN, demo_connector, ?out) \<and>
           getSigner ?S demo_connector ?out = (Inl NOT_LOGGED_IN, demo_connector, ?out) \<and>
           getProvider ?S demo_connector ?out = (Inl NOT_LOGGED_IN, demo_connector, ?out)"
    by simp
  from unauthenticated_access [where S = ?S and c = "demo_connector\<lparr>priv_provider := Some (Provider 7)\<rparr>"
         and p = "Provider 7" and w = ?out]
  have b: "getProvider ?S (demo_connector\<lparr>priv_provider := Some (Provider 7)\<rparr>) ?out =
             (Inr (Provider 7), demo_connector\<lparr>priv_provider := Some (Provider 7)\<rparr>, ?out)"
    by simp
  from a b show ?thesis by simp
qed

subsection \<open>Authorization\<close>

text \<open>
  Claim C5, as stated, has \<^verbatim>\<open>isAuthorized\<close> return false on a fresh connector until a
  \<^verbatim>\<open>connect\<close> succeeds. When the SDK already holds an initialized session (one that
  survives from an earlier visit), it returns true on the fresh connector, with no
  \<^verbatim>\<open>connect\<close> at all; \<^verbatim>\<open>connect\<close> itself starts by asking \<^verbatim>\<open>isAuthorized\<close> and skips the
  login when the answer is true.
\<close>

theorem isAuthorized_iff_counterexample:
  "constructor (demo_sdk ''abc123'' (Inr LOGGED_IN_WALLET_INITIALIZED)) demo_chains False True
     (demo_config ''client'' ''Polygon'') \<lparr>logged_in = True, clients = 0\<rparr> =
     (Inr demo_connector, \<lparr>logged_in = True, clients = 1\<rparr>) \<and>
   fst (isAuthorized (demo_sdk ''abc123'' (Inr LOGGED_IN_WALLET_INITIALIZED)) demo_connector
     \<lparr>logged_in = True, clients = 1\<rparr>) = Inr True"
  unfolding demo_constructor
  by (simp add: isAuthorized_def getUser_def getSdk_def demo_defs)

text \<open>
  Claim C5, amended. \<^verbatim>\<open>isAuthorized\<close> returns true exactly when a session is cached or
  the SDK, asked now, answers with the status \<open>LOGGED_IN_WALLET_INITIALIZED\<close>; from
  construction on every cached session has that status. On a connector that was just
  constructed nothing is cached, so there it returns true exactly when the SDK answers
  with that status, and false exactly when the SDK answers with another status.
\<close>

theorem isAuthorized_iff:
  "(fst (isAuthorized S c w) = Inr True \<longleftrightarrow>
      (\<exists>u. priv_user c = Some u) \<or>
      (\<exists>h c1 w1 us w2. getSdk S c w = (Inr h, c1, w1) \<and> sdk_getUser S h w1 = (Inr us, w2) \<and>
         status us = LOGGED_IN_WALLET_INITIALIZED)) \<and>
   (constructor S W is_server has_window config w0 = (Inr c0, w0') \<and> run S W as (c0, w0') = (c, w') \<and>
    priv_user c = Some u \<longrightarrow> status u = LOGGED_IN_WALLET_INITIALIZED) \<and>
   (constructor S W is_server has_window config w0 = (Inr c, w0') \<longrightarrow>
      (fst (isAuthorized S c w) = Inr True \<longleftrightarrow>
         (\<exists>h c1 w1 us w2. getSdk S c w = (Inr h, c1, w1) \<and> sdk_getUser S h w1 = (Inr us, w2) \<and>
            status us = LOGGED_IN_WALLET_INITIALIZED)) \<and>
      (fst (isAuthorized S c w) = Inr False \<longleftrightarrow>
         (\<exists>h c1 w1 us w2. getSdk S c w = (Inr h, c1, w1) \<and> sdk_getUser S h w1 = (Inr us, w2) \<and>
            status us \<noteq> LOGGED_IN_WALLET_INITIALIZED)))"
proof (intro conjI impI)
  show "fst (isAuthorized S c w) = Inr True \<longleftrightarrow>
      (\<exists>u. priv_user c = Some u) \<or>
      (\<exists>h c1 w1 us w2. getSdk S c w = (Inr h, c1, w1) \<and> sdk_getUser S h w1 = (Inr us, w2) \<and>
         status us = LOGGED_IN_WALLET_INITIALIZED)"
    unfolding isAuthorized_True_iff by (rule getUser_Some_iff)
next
  assume a: "constructor S W is_server has_window config w0 = (Inr c0, w0') \<and> run S W as (c0, w0') = (c, w') \<and>
    priv_user c = Some u"
  then have "priv_user c0 = None" by (auto dest: constructor_fresh)
  with a run_user_initialized [of S W as c0 w0' c w']
  show "status u = LOGGED_IN_WALLET_INITIALIZED" by simp
next
  assume k: "constructor S W is_server has_window config w0 = (Inr c, w0')"
  from constructor_fresh [OF k] have n: "priv_user c = None" by simp
  show "fst (isAuthorized S c w) = Inr True \<longleftrightarrow>
         (\<exists>h c1 w1 us w2. getSdk S c w = (Inr h, c1, w1) \<and> sdk_getUser S h w1 = (Inr us, w2) \<and>
            status us = LOGGED_IN_WALLET_INITIALIZED)"
    unfolding isAuthorized_True_iff getUser_Some_iff using n by simp
  show "fst (isAuthorized S c w) = Inr False \<longleftrightarrow>
         (\<exists>h c1 w1 us w2. getSdk S c w = (Inr h, c1, w1) \<and> sdk_getUser S h w1 = (Inr us, w2) \<and>
            status us \<noteq> LOGGED_IN_WALLET_INITIALIZED)"
    unfolding isAuthorized_False_iff getUser_None_iff using n by simp
qed

theorem isAuthorized_iff_witness:
  "fst (isAuthorized (demo_sdk ''abc123'' (Inr LOGGED_IN_WALLET_INITIALIZED)) demo_connector
     \<lparr>logged_in = True, clients = 1\<rparr>) = Inr True \<and>
   fst (isAuthorized (demo_sdk ''abc123'' (Inr LOGGED_IN_WALLET_INITIALIZED)) demo_connector
     \<lparr>logged_in = False, clients = 1\<rparr>) = Inr False \<and>
   fst (isAuthorized (demo_sdk ''abc123'' (Inr LOGGED_IN_WALLET_INITIALIZED))
     (demo_connector\<lparr>priv_user := Some (demo_user ''abc123'' LOGGED_IN_WALLET_INITIALIZED)\<rparr>)
     \<lparr>logged_in = False, clients = 1\<rparr>) = Inr True \<and>
   status (demo_user ''abc123'' LOGGED_IN_WALLET_INITIALIZED) = LOGGED_IN_WALLET_INITIALIZED"
proof -
  let ?S = "demo_sdk ''abc123'' (Inr LOGGED_IN_WALLET_INITIALIZED)"
  let ?u = "demo_user ''abc123'' LOGGED_IN_WALLET_INITIALIZED"
  let ?out = "\<lparr>logged_in = False, clients = 1\<rparr>"
  let ?in = "\<lparr>logged_in = True, clients = 1\<rparr>"
  let ?c2 = "demo_connector
      \<lparr>priv_provider := Some (Provider 7), priv_user := Some ?u,
       listeners := [(Provider 7, ''accountsChanged'', OnAccountsChanged),
                     (Provider 7, ''chainChanged'', OnChainChanged),
                     (Provider 7, ''disconnect'', OnDisconnect)]\<rparr>"
  note k = demo_constructor [of "''abc123''" "Inr LOGGED_IN_WALLET_INITIALIZED" False]
  have s1: "getSdk ?S demo_connector w = (Inr (), demo_connector, w)" for w
    by (simp add: getSdk_def demo_connector_def)
  have s2: "sdk_getUser ?S () ?in = (Inr ?u, ?in)"
    by (simp add: demo_sdk_def)
  have s3: "sdk_getUser ?S () ?out = (Inr (demo_user [] (OtherStatus ''Logged Out'')), ?out)"
    by (simp add: demo_sdk_def)
  have s6: "run ?S demo_chains [Connect] (demo_connector, ?out) = (?c2, ?in)"
    by (simp only: run.simps step.simps demo_connect snd_conv)
  note t = isAuthorized_iff [where S = ?S and W = demo_chains and is_server = False and has_window = True
             and config = "demo_config ''client'' ''Polygon''"
             and ?w0.0 = "\<lparr>logged_in = False, clients = 0\<rparr>" and w0' = ?out]
  from t [where c = demo_connector and w = ?in] k s1 s2
  have a: "fst (isAuthorized ?S demo_connector ?in) = Inr True"
    by (auto simp: demo_user_def)
  from t [where c = demo_connector and w = ?out] k s1 s3
  have b: "fst (isAuthorized ?S demo_connector ?out) = Inr False"
    by (auto simp: demo_user_def)
  from t [where c = "demo_connector\<lparr>priv_user := Some ?u\<rparr>" and w = ?out]
  have c: "fst (isAuthorized ?S (demo_connector\<lparr>priv_user := Some ?u\<rparr>) ?out) = Inr True"
    by simp
  from t [where ?c0.0 = demo_connector and as = "[Connect]" and c = ?c2 and w' = ?in and u = ?u] k s6
  have d: "status ?u = LOGGED_IN_WALLET_INITIALIZED"
    by (simp add: demo_connector_def)
  from a b c d show ?thesis by simp
qed

subsection \<open>Disconnect\<close>



subsection \<open>Connect with a login that fails\<close>

text \<open>
  Claim C4. Let \<^verbatim>\<open>connect\<close> find the connector unauthorized, so that it runs the login.
  If the login rejects with \<open>e\<close>, \<^verbatim>\<open>connect\<close> rejects with \<open>e\<close> inside a
  \<^verbatim>\<open>UserRejectedRequestError\<close>; if the login resolves with a status other than
  \<open>LOGGED_IN_WALLET_INITIALIZED\<close>, \<^verbatim>\<open>connect\<close> rejects with ``Unexpected user status''
  inside a \<^verbatim>\<open>UserRejectedRequestError\<close>. In both cases no session is cached afterwards,
  and a later \<^verbatim>\<open>isAuthorized\<close> returns true only if the SDK, asked then, answers with
  the status \<open>LOGGED_IN_WALLET_INITIALIZED\<close>.
\<close>

theorem connect_login_rejected:
  assumes "isAuthorized S c w = (Inr False, c1, w1)"
  shows "\<exists>h. priv_sdk c1 = Some h \<and> priv_user c1 = None \<and>
           (\<forall>e w2. sdk_loginWithPaperModal S h w1 = (Inl e, w2) \<longrightarrow>
              connect S W c w = (Inl (UserRejectedRequestError e), c1, w2)) \<and>
           (\<forall>resp w2. sdk_loginWithPaperModal S h w1 = (Inr resp, w2) \<and>
                status (user resp) \<noteq> LOGGED_IN_WALLET_INITIALIZED \<longrightarrow>
              connect S W c w = (Inl (UserRejectedRequestError UNEXPECTED_USER_STATUS), c1, w2)) \<and>
           (\<forall>w3. fst (isAuthorized S c1 w3) = Inr True \<longrightarrow>
              (\<exists>us w4. sdk_getUser S h w3 = (Inr us, w4) \<and>
                 status us = LOGGED_IN_WALLET_INITIALIZED))"
proof -
  from assms have u: "getUser S c w = (Inr None, c1, w1)"
    by (auto simp: isAuthorized_def split: prod.splits sum.splits)
  from getUser_result [OF u] have none: "priv_user c1 = None" .
  from u obtain h where sdk: "priv_sdk c1 = Some h"
    by (auto simp: getUser_def split: option.splits prod.splits sum.splits if_splits
          dest!: getSdk_cases)
  have g: "getSdk S c1 w' = (Inr h, c1, w')" for w'
    using sdk by (rule getSdk_created)
  have a: "connect S W c w = (Inl (UserRejectedRequestError e), c1, w2)"
    if "sdk_loginWithPaperModal S h w1 = (Inl e, w2)" for e w2
    using that assms g [of w1] by (simp add: connect_def login_def)
  have b: "connect S W c w = (Inl (UserRejectedRequestError UNEXPECTED_USER_STATUS), c1, w2)"
    if "sdk_loginWithPaperModal S h w1 = (Inr resp, w2) \<and>
        status (user resp) \<noteq> LOGGED_IN_WALLET_INITIALIZED" for resp w2
    using that assms g [of w1] by (simp add: connect_def login_def)
  have c: "\<exists>us w4. sdk_getUser S h w3 = (Inr us, w4) \<and> status us = LOGGED_IN_WALLET_INITIALIZED"
    if "fst (isAuthorized S c1 w3) = Inr True" for w3
    using that none g [of w3] unfolding isAuthorized_True_iff getUser_Some_iff by auto
  from sdk none a b c show ?thesis by blast
qed

theorem connect_login_rejected_witness:
  "connect (demo_sdk ''abc123'' (Inr (OtherStatus ''Logged In, New Device''))) demo_chains demo_connector
     \<lparr>logged_in = False, clients = 1\<rparr> =
     (Inl (UserRejectedRequestError UNEXPECTED_USER_STATUS), demo_connector,
      \<lparr>logged_in = False, clients = 1\<rparr>) \<and>
   connect (demo_sdk ''abc123'' (Inl (Error ''User closed modal''))) demo_chains demo_connector
     \<lparr>logged_in = False, clients = 1\<rparr> =
     (Inl (UserRejectedRequestError (Error ''User closed modal'')), demo_connector,
      \<lparr>logged_in = False, clients = 1\<rparr>) \<and>
   fst (isAuthorized (demo_sdk ''abc123'' (Inr (OtherStatus ''Logged In, New Device''))) demo_connector
     \<lparr>logged_in = False, clients = 1\<rparr>) \<noteq> Inr True"
proof -
  let ?S = "demo_sdk ''abc123'' (Inr (OtherStatus ''Logged In, New Device''))"
  let ?T = "demo_sdk ''abc123'' (Inl (Error ''User closed modal''))"
  let ?out = "\<lparr>logged_in = False, clients = 1\<rparr>"
  have i: "isAuthorized (demo_sdk ''abc123'' out) demo_connector ?out = (Inr False, demo_connector, ?out)"
    for out
    by (simp add: isAuthorized_def getUser_def getSdk_def demo_defs)
  have l1: "sdk_loginWithPaperModal ?S h ?out =
              (Inr \<lparr>user = demo_user ''abc123'' (OtherStatus ''Logged In, New Device'')\<rparr>, ?out)" for h
    by (simp add: demo_sdk_def)
  have l2: "sdk_loginWithPaperModal ?T h ?out = (Inl (Error ''User closed modal''), ?out)" for h
    by (simp add: demo_sdk_def)
  have s3: "sdk_getUser ?S h ?out = (Inr (demo_user [] (OtherStatus ''Logged Out'')), ?out)" for h
    by (simp add: demo_sdk_def)
  from connect_login_rejected [OF i [of "Inr (OtherStatus ''Logged In, New Device'')"], of demo_chains] l1 s3
  have a: "connect ?S demo_chains demo_connector ?out =
             (Inl (UserRejectedRequestError UNEXPECTED_USER_STATUS), demo_connector, ?out) \<and>
           fst (isAuthorized ?S demo_connector ?out) \<noteq> Inr True"
    by (auto simp: demo_user_def)
  from connect_login_rejected [OF i [of "Inl (Error ''User closed modal'')"], of demo_chains] l2
  have b: "connect ?T demo_chains demo_connector ?out =
             (Inl (UserRejectedRequestError (Error ''User closed modal'')), demo_connector, ?out)"
    by auto
  from a b show ?thesis by simp
qed

end
